theory Spec2Isabelle
  imports Complex_Main
begin

section \<open>Python strings, numbers and paths used by the checkpoint module\<close>

text \<open>
  The checkpoint module of Merak (\<^verbatim>\<open>Merak/utils/checkpoint.py\<close>) builds file names with
  \<^verbatim>\<open>str.format\<close> and \<^verbatim>\<open>os.path.join\<close>, writes the iteration with \<^verbatim>\<open>str\<close> and reads it
  back with \<^verbatim>\<open>int\<close>. This section embeds those library functions for ASCII text:
  a string is a list of characters, a Python integer is an \<^typ>\<open>int\<close>.
\<close>

definition digit_char :: "nat \<Rightarrow> char" where
  "digit_char d = ''0123456789'' ! d"

text \<open>The decimal digits of a natural number, most significant first, no leading zero.\<close>

fun digits_of :: "nat \<Rightarrow> string" where
  "digits_of n = (if n < 10 then [digit_char n] else digits_of (n div 10) @ [digit_char (n mod 10)])"

declare digits_of.simps [simp del]

text \<open>\<^verbatim>\<open>str(i)\<close> for an integer.\<close>

definition str_int :: "int \<Rightarrow> string" where
  "str_int i = (if i < 0 then ''-'' @ digits_of (nat (- i)) else digits_of (nat i))"

text \<open>
  \<^verbatim>\<open>'{:0wd}'.format(i)\<close>: the sign first, then zeros up to the width \<open>w\<close> (the sign counts in
  the width), then the digits; never truncated.
\<close>

definition format_0d :: "nat \<Rightarrow> int \<Rightarrow> string" where
  "format_0d w i =
     (let sign = (if i < 0 then ''-'' else '''');
          ds = digits_of (nat \<bar>i\<bar>)
      in sign @ replicate (w - (length sign + length ds)) (CHR ''0'') @ ds)"

text \<open>\<^verbatim>\<open>'{:wd}'.format(i)\<close>: right-aligned in a field of \<open>w\<close> characters, padded with spaces.\<close>

definition format_d :: "nat \<Rightarrow> int \<Rightarrow> string" where
  "format_d w i = (let s = str_int i in replicate (w - length s) (CHR '' '') @ s)"

text \<open>
  \<^verbatim>\<open>str.strip()\<close>: removes leading and trailing whitespace. In ASCII the whitespace
  characters of Python are tab, line feed, vertical tab, form feed, carriage return, the
  four separators \<open>0x1C\<close> to \<open>0x1F\<close> and the space.
\<close>

definition is_space :: "char \<Rightarrow> bool" where
  "is_space c = (c \<in> set [CHR 0x09, CHR 0x0A, CHR 0x0B, CHR 0x0C, CHR 0x0D,
                             CHR 0x1C, CHR 0x1D, CHR 0x1E, CHR 0x1F, CHR '' ''])"

definition strip :: "string \<Rightarrow> string" where
  "strip s = rev (dropWhile is_space (rev (dropWhile is_space s)))"

definition is_digit :: "char \<Rightarrow> bool" where
  "is_digit c = (c \<in> set ''0123456789'')"

definition digit_val :: "char \<Rightarrow> nat" where
  "digit_val c = of_char c - 48"

text \<open>The number a string of decimal digits denotes.\<close>

definition decimal_value :: "string \<Rightarrow> nat" where
  "decimal_value ds = foldl (\<lambda>a c. 10 * a + digit_val c) 0 ds"

text \<open>
  The digits of an integer literal as \<^verbatim>\<open>int\<close> reads them in base 10: decimal digits, with
  single underscores allowed between two digits only. \<open>prev\<close> tells whether the character
  before was a digit. \<open>None\<close> is Python's \<^verbatim>\<open>ValueError\<close>.
\<close>

fun int_digits :: "nat \<Rightarrow> bool \<Rightarrow> string \<Rightarrow> nat option" where
  "int_digits acc prev [] = (if prev then Some acc else None)"
| "int_digits acc prev (c # cs) =
     (if is_digit c then int_digits (10 * acc + digit_val c) True cs
      else if c = CHR ''_'' \<and> prev then int_digits acc False cs
      else None)"

text \<open>
  \<^verbatim>\<open>int(s)\<close> for a string: surrounding whitespace is ignored, one sign may come first.
  Integers are unbounded, as Python's are (the limit that recent interpreters put on the
  number of digits is left out, and so are decimal digits outside ASCII).
\<close>

definition py_int :: "string \<Rightarrow> int option" where
  "py_int s =
     (case strip s of
        [] \<Rightarrow> None
      | c # cs \<Rightarrow>
          if c = CHR ''-'' then map_option (\<lambda>n. - int n) (int_digits 0 False cs)
          else if c = CHR ''+'' then map_option int (int_digits 0 False cs)
          else map_option int (int_digits 0 False (c # cs)))"

text \<open>
  \<^verbatim>\<open>os.path.join(a, *p)\<close> of \<^verbatim>\<open>posixpath\<close>: a component that starts with a slash replaces
  what was joined so far; a separator is added unless the path so far is empty or ends
  with one.
\<close>

fun os_path_join :: "string \<Rightarrow> string list \<Rightarrow> string" where
  "os_path_join path [] = path"
| "os_path_join path (b # p) =
     os_path_join
       (if b \<noteq> [] \<and> hd b = CHR ''/'' then b
        else if path = [] \<or> last path = CHR ''/'' then path @ b
        else path @ ''/'' @ b) p"

declare os_path_join.simps [simp del]

text \<open>What \<^verbatim>\<open>os.path.join\<close> puts in front of the next relative component.\<close>

definition dir_prefix :: "string \<Rightarrow> string" where
  "dir_prefix path = (if path = [] \<or> last path = CHR ''/'' then path else path @ ''/'')"

text \<open>
  \<^verbatim>\<open>os.path.dirname(p)\<close> of \<^verbatim>\<open>posixpath\<close>: everything up to the last slash, without
  trailing slashes unless it consists of slashes only.
\<close>

definition os_path_dirname :: "string \<Rightarrow> string" where
  "os_path_dirname p =
     (let head = rev (dropWhile (\<lambda>c. c \<noteq> CHR ''/'') (rev p)) in
      if head \<noteq> [] \<and> head \<noteq> replicate (length head) (CHR ''/'')
      then rev (dropWhile (\<lambda>c. c = CHR ''/'') (rev head))
      else head)"

section \<open>The rank topology\<close>

text \<open>
  \<^verbatim>\<open>mpu\<close> and \<^verbatim>\<open>torch.distributed\<close> are consumed through a few queries. Their answers on one
  rank are taken as parameters: a record with one field per query.
\<close>

record topology =
  is_initialized :: bool                \<comment> \<open>\<^verbatim>\<open>torch.distributed.is_initialized()\<close>\<close>
  get_rank :: int                       \<comment> \<open>\<^verbatim>\<open>torch.distributed.get_rank()\<close>\<close>
  get_data_parallel_rank :: int
  get_pipe_parallel_world_size :: int
  get_tensor_model_parallel_rank :: int
  get_model_parallel_rank :: int
  get_pipe_parallel_rank :: int

section \<open>Checkpoint names\<close>

definition get_checkpoint_name :: "topology \<Rightarrow> string \<Rightarrow> int \<Rightarrow> bool \<Rightarrow> bool \<Rightarrow> string" where
  "get_checkpoint_name mpu checkpoints_path iteration release complete' =
     (let directory = (if release then ''release'' else ''iter_'' @ format_0d 7 iteration) in
      if get_pipe_parallel_world_size mpu = 1 then
        (if complete' then
           os_path_join checkpoints_path
             [''iter_'' @ format_0d 7 iteration @ ''_mp_rank_''
                @ format_0d 2 (get_tensor_model_parallel_rank mpu),
              ''complete_model_optim.pt'']
         else
           os_path_join checkpoints_path
             [directory,
              ''mp_rank_'' @ format_0d 2 (get_tensor_model_parallel_rank mpu),
              ''model_optim_rng.pt''])
      else if complete' then
        os_path_join checkpoints_path
          [directory,
           ''iter_'' @ format_0d 7 iteration @ ''_mp_rank_''
             @ format_0d 2 (get_model_parallel_rank mpu) @ ''_pp_rank_''
             @ format_0d 3 (get_pipe_parallel_rank mpu),
           ''complete_model_optim.pt'']
      else
        os_path_join checkpoints_path
          [directory,
           ''mp_rank_'' @ format_0d 2 (get_model_parallel_rank mpu) @ ''_pp_rank_''
             @ format_0d 3 (get_pipe_parallel_rank mpu),
           ''model_optim_rng.pt''])"

section \<open>Values, errors and output\<close>

text \<open>
  The run configuration \<^verbatim>\<open>args\<close>: the attributes this module reads or writes, and the
  remaining (structural) attributes by name. The consumed-sample counters may be absent
  from an object, which \<^verbatim>\<open>getattr(..., 0)\<close> tolerates.
\<close>

record args =
  output_dir :: string
  resume_from_checkpoint :: string
  no_save_optim :: bool
  no_save_rng :: bool
  finetune :: bool
  no_load_optim :: bool
  no_load_rng :: bool
  consumed_train_samples :: "int option"
  consumed_valid_samples :: "int option"
  attrs :: "(string \<times> int) list"

text \<open>
  Python values as far as checkpoints hold them. A float is the rational number it
  denotes (not-a-number and the infinities are left out); opaque payloads (tensors,
  generator states) are any value of this type.
\<close>

datatype pyval =
    PNone
  | PBool bool
  | PInt int
  | PFloat rat
  | PStr string
  | PTuple "pyval list"
  | PDict "(string \<times> pyval) list"
  | PArgs args

definition num_of :: "pyval \<Rightarrow> rat option" where
  "num_of v =
     (case v of
        PBool b \<Rightarrow> Some (if b then 1 else 0)
      | PInt i \<Rightarrow> Some (of_int i)
      | PFloat r \<Rightarrow> Some r
      | _ \<Rightarrow> None)"

text \<open>
  \<^verbatim>\<open>a == b\<close> on two configuration objects: they compare by their attributes, as a dataclass
  or an \<^verbatim>\<open>argparse\<close> namespace does; the order in which the remaining attributes are listed
  does not matter.
\<close>

definition args_eq :: "args \<Rightarrow> args \<Rightarrow> bool" where
  "args_eq a b =
     (output_dir a = output_dir b
      \<and> resume_from_checkpoint a = resume_from_checkpoint b
      \<and> no_save_optim a = no_save_optim b
      \<and> no_save_rng a = no_save_rng b
      \<and> finetune a = finetune b
      \<and> no_load_optim a = no_load_optim b
      \<and> no_load_rng a = no_load_rng b
      \<and> consumed_train_samples a = consumed_train_samples b
      \<and> consumed_valid_samples a = consumed_valid_samples b
      \<and> list_all (\<lambda>(name, v). map_of (attrs b) name = map_of (attrs a) name) (attrs a)
      \<and> list_all (\<lambda>(name, v). map_of (attrs a) name = map_of (attrs b) name) (attrs b))"

text \<open>
  \<^verbatim>\<open>a == b\<close>. Numbers (booleans included) compare by value whatever their type. Tuples
  are equal when they have the same length and equal components. Dictionaries are equal
  when they have the same keys and equal values under each key, in whatever order the
  keys were inserted (in the list that stands for a dictionary the first entry of a key
  is its value). Everything else is equal to values of its own kind only.
\<close>

fun py_eq :: "pyval \<Rightarrow> pyval \<Rightarrow> bool" where
  "py_eq (PTuple xs) (PTuple ys) = list_all2 py_eq xs ys"
| "py_eq (PDict kvs) (PDict kvs') =
     (list_all (\<lambda>(k, v). case map_of kvs' k of
                            Some v' \<Rightarrow> (if map_of kvs k = Some v then py_eq v v' else True)
                          | None \<Rightarrow> False) kvs
      \<and> list_all (\<lambda>(k, v'). map_of kvs k \<noteq> None) kvs')"
| "py_eq (PArgs a) (PArgs b) = args_eq a b"
| "py_eq a b = (case (num_of a, num_of b) of (Some x, Some y) \<Rightarrow> x = y | _ \<Rightarrow> a = b)"

text \<open>The truth value of a Python value, as \<^verbatim>\<open>not v\<close> tests it.\<close>

definition py_truthy :: "pyval \<Rightarrow> bool" where
  "py_truthy v =
     (case v of
        PNone \<Rightarrow> False
      | PBool b \<Rightarrow> b
      | PInt i \<Rightarrow> i \<noteq> 0
      | PFloat r \<Rightarrow> r \<noteq> 0
      | PStr s \<Rightarrow> s \<noteq> []
      | PTuple vs \<Rightarrow> vs \<noteq> []
      | PDict kvs \<Rightarrow> kvs \<noteq> []
      | PArgs a \<Rightarrow> True)"

text \<open>
  What is printed: a text, or a format string with the values it formats (where the
  rendering of a value is Python's business), or the exception \<^verbatim>\<open>torch.load\<close> raised.
\<close>

datatype message =
    Text string
  | Formatted string "pyval list"
  | Load_exception

datatype error =
    AssertionError message
  | SystemExit
  | KeyError string
  | AttributeError string
  | FileNotFoundError string
  | UnicodeDecodeError
  | RuntimeError string

text \<open>
  What a run does that is seen outside its result. \<^verbatim>\<open>print_rank_0\<close> hands a message to the
  rank-0-gated logging sink; \<^verbatim>\<open>print\<close> writes on the calling rank; the other five are the
  calls that set a random number generator of the process (\<^verbatim>\<open>random.setstate\<close>,
  \<^verbatim>\<open>np.random.set_state\<close>, \<^verbatim>\<open>torch.set_rng_state\<close>, \<^verbatim>\<open>torch.cuda.set_rng_state\<close> and
  \<^verbatim>\<open>get_cuda_rng_tracker().set_states\<close>), with the state they set.
\<close>

datatype event =
    Print_rank_0 message
  | Print message
  | Random_setstate pyval
  | Np_random_set_state pyval
  | Torch_set_rng_state pyval
  | Torch_cuda_set_rng_state pyval
  | Tracker_set_states pyval

text \<open>
  A run of a function on one rank: what it did, in order, and either the error that
  ended it (an exception that nobody caught, \<^verbatim>\<open>sys.exit()\<close> included) or its result. A run
  that ends in an error has no result, but the calls it made before are in its events.
\<close>

type_synonym 'a run = "event list \<times> (error + 'a)"

definition ret :: "'a \<Rightarrow> 'a run" where
  "ret x = ([], Inr x)"

definition raise :: "error \<Rightarrow> 'a run" where
  "raise e = ([], Inl e)"

definition print_rank_0 :: "message \<Rightarrow> unit run" where
  "print_rank_0 m = ([Print_rank_0 m], Inr ())"

definition print :: "message \<Rightarrow> unit run" where
  "print m = ([Print m], Inr ())"

definition sys_exit :: "unit \<Rightarrow> 'a run" where
  "sys_exit u = raise SystemExit"

text \<open>Sequencing: the second part runs on the result of the first unless that one failed.\<close>

definition andthen :: "'a run \<Rightarrow> ('a \<Rightarrow> 'b run) \<Rightarrow> 'b run" where
  "andthen m f =
     (case m of
        (out, Inl e) \<Rightarrow> (out, Inl e)
      | (out, Inr x) \<Rightarrow> (case f x of (out', r) \<Rightarrow> (out @ out', r)))"

text \<open>\<^verbatim>\<open>try: body except KeyError: handler\<close>.\<close>

definition except_KeyError :: "'a run \<Rightarrow> 'a run \<Rightarrow> 'a run" where
  "except_KeyError body handler =
     (case body of
        (out, Inl (KeyError k)) \<Rightarrow> (case handler of (out', r) \<Rightarrow> (out @ out', r))
      | r \<Rightarrow> r)"

text \<open>\<^verbatim>\<open>d[k]\<close> on a dictionary.\<close>

definition getitem :: "(string \<rightharpoonup> pyval) \<Rightarrow> string \<Rightarrow> pyval run" where
  "getitem d k = (case d k of Some v \<Rightarrow> ret v | None \<Rightarrow> raise (KeyError k))"

text \<open>\<^verbatim>\<open>getattr(obj, name)\<close>: only a configuration object has attributes here.\<close>

definition getattr :: "pyval \<Rightarrow> string \<Rightarrow> pyval run" where
  "getattr obj name =
     (case obj of
        PArgs a \<Rightarrow>
          (if name = ''output_dir'' then ret (PStr (output_dir a))
           else if name = ''resume_from_checkpoint'' then ret (PStr (resume_from_checkpoint a))
           else if name = ''no_save_optim'' then ret (PBool (no_save_optim a))
           else if name = ''no_save_rng'' then ret (PBool (no_save_rng a))
           else if name = ''finetune'' then ret (PBool (finetune a))
           else if name = ''no_load_optim'' then ret (PBool (no_load_optim a))
           else if name = ''no_load_rng'' then ret (PBool (no_load_rng a))
           else if name = ''consumed_train_samples'' then
             (case consumed_train_samples a of
                Some c \<Rightarrow> ret (PInt c) | None \<Rightarrow> raise (AttributeError name))
           else if name = ''consumed_valid_samples'' then
             (case consumed_valid_samples a of
                Some c \<Rightarrow> ret (PInt c) | None \<Rightarrow> raise (AttributeError name))
           else (case map_of (attrs a) name of
                   Some i \<Rightarrow> ret (PInt i) | None \<Rightarrow> raise (AttributeError name)))
      | _ \<Rightarrow> raise (AttributeError name))"

section \<open>The state of a rank's process\<close>

text \<open>
  A file holds text or a pickled dictionary (what \<^verbatim>\<open>torch.save\<close> wrote). Input and output
  errors of the operating system are outside the model: a write succeeds.
\<close>

type_synonym blob = "string \<rightharpoonup> pyval"

datatype file_content = Text_file string | Pickle blob

text \<open>
  The module's global \<^verbatim>\<open>_CHECKPOINT_VERSION\<close>, the five random number generator states
  the module saves and restores, and the file system as this rank sees it.
\<close>

record process =
  CHECKPOINT_VERSION :: pyval
  random_rng_state :: pyval
  np_rng_state :: pyval
  torch_rng_state :: pyval
  cuda_rng_state :: pyval
  rng_tracker_states :: pyval
  files :: "string \<rightharpoonup> file_content"
  dirs :: "string list"

text \<open>
  The five calls that set a generator: each is an event of the run and changes the state
  of the process.
\<close>

definition random_setstate :: "process \<Rightarrow> pyval \<Rightarrow> process run" where
  "random_setstate p v = ([Random_setstate v], Inr (p\<lparr>random_rng_state := v\<rparr>))"

definition np_random_set_state :: "process \<Rightarrow> pyval \<Rightarrow> process run" where
  "np_random_set_state p v = ([Np_random_set_state v], Inr (p\<lparr>np_rng_state := v\<rparr>))"

definition torch_set_rng_state :: "process \<Rightarrow> pyval \<Rightarrow> process run" where
  "torch_set_rng_state p v = ([Torch_set_rng_state v], Inr (p\<lparr>torch_rng_state := v\<rparr>))"

definition torch_cuda_set_rng_state :: "process \<Rightarrow> pyval \<Rightarrow> process run" where
  "torch_cuda_set_rng_state p v = ([Torch_cuda_set_rng_state v], Inr (p\<lparr>cuda_rng_state := v\<rparr>))"

definition tracker_set_states :: "process \<Rightarrow> pyval \<Rightarrow> process run" where
  "tracker_set_states p v = ([Tracker_set_states v], Inr (p\<lparr>rng_tracker_states := v\<rparr>))"

text \<open>
  A model, an optimizer or a learning-rate scheduler: its state, and whether its
  \<^verbatim>\<open>load_state_dict\<close> takes a given state (with the flag \<^verbatim>\<open>strict\<close>, which only a model
  has) or raises. These objects are external.
\<close>

record component =
  state_dict :: pyval
  accepts :: "pyval \<Rightarrow> bool \<Rightarrow> bool"

definition load_state_dict :: "component \<Rightarrow> pyval \<Rightarrow> bool \<Rightarrow> component run" where
  "load_state_dict c sd strict =
     (if accepts c sd strict then ret (c\<lparr>state_dict := sd\<rparr>)
      else raise (RuntimeError ''load_state_dict''))"

text \<open>The \<^verbatim>\<open>model\<close> argument: one module, or a Python list of modules.\<close>

datatype model_arg = Single component | Module_list "component list"

definition unwrap_model :: "model_arg \<Rightarrow> model_arg" where
  "unwrap_model model =
     (case model of
        Single m \<Rightarrow> Single (hd (fold (\<lambda>model_module unwrapped_model. unwrapped_model @ [model_module]) [m] []))
      | Module_list ms \<Rightarrow>
          Module_list (fold (\<lambda>model_module unwrapped_model. unwrapped_model @ [model_module]) ms []))"

text \<open>\<^verbatim>\<open>model.state_dict()\<close> and \<^verbatim>\<open>model.load_state_dict(...)\<close>: a list has neither method.\<close>

definition model_state_dict :: "model_arg \<Rightarrow> pyval run" where
  "model_state_dict model =
     (case model of
        Single m \<Rightarrow> ret (state_dict m)
      | Module_list ms \<Rightarrow> raise (AttributeError ''state_dict''))"

definition model_load_state_dict :: "model_arg \<Rightarrow> pyval \<Rightarrow> bool \<Rightarrow> model_arg run" where
  "model_load_state_dict model sd strict =
     (case model of
        Single m \<Rightarrow> andthen (load_state_dict m sd strict) (\<lambda>m'. ret (Single m'))
      | Module_list ms \<Rightarrow> raise (AttributeError ''load_state_dict''))"

section \<open>The checkpoint version\<close>

definition set_checkpoint_version :: "process \<Rightarrow> pyval \<Rightarrow> process run" where
  "set_checkpoint_version p val =
     andthen
       (if CHECKPOINT_VERSION p \<noteq> PNone then
          (if py_eq (CHECKPOINT_VERSION p) val then ret ()
           else raise (AssertionError (Text ''checkpoint versions do not match'')))
        else ret ())
       (\<lambda>_. ret (p\<lparr>CHECKPOINT_VERSION := val\<rparr>))"

definition get_checkpoint_version :: "process \<Rightarrow> pyval" where
  "get_checkpoint_version p = CHECKPOINT_VERSION p"

section \<open>Files and directories\<close>

definition os_path_isfile :: "process \<Rightarrow> string \<Rightarrow> bool" where
  "os_path_isfile p path = (files p path \<noteq> None)"

definition os_path_exists :: "process \<Rightarrow> string \<Rightarrow> bool" where
  "os_path_exists p path = (files p path \<noteq> None \<or> path \<in> set (dirs p))"

text \<open>\<^verbatim>\<open>os.makedirs\<close>: the directories made are recorded under the name they were made by.\<close>

definition os_makedirs :: "process \<Rightarrow> string \<Rightarrow> process run" where
  "os_makedirs p path =
     (if path = [] then raise (FileNotFoundError path) else ret (p\<lparr>dirs := path # dirs p\<rparr>))"

definition ensure_directory_exists :: "process \<Rightarrow> string \<Rightarrow> process run" where
  "ensure_directory_exists p filename =
     (let dirname = os_path_dirname filename in
      if \<not> os_path_exists p dirname then os_makedirs p dirname else ret p)"

definition torch_save :: "process \<Rightarrow> blob \<Rightarrow> string \<Rightarrow> process" where
  "torch_save p sd path = p\<lparr>files := (files p)(path \<mapsto> Pickle sd)\<rparr>"

text \<open>\<^verbatim>\<open>torch.load\<close>: \<open>None\<close> when it raises (no such file, or not a pickled dictionary).\<close>

definition torch_load :: "process \<Rightarrow> string \<Rightarrow> blob option" where
  "torch_load p path = (case files p path of Some (Pickle sd) \<Rightarrow> Some sd | _ \<Rightarrow> None)"

definition get_checkpoint_tracker_filename :: "string \<Rightarrow> string" where
  "get_checkpoint_tracker_filename checkpoints_path =
     os_path_join checkpoints_path [''latest_checkpointed_iteration.txt'']"

section \<open>Checking the stored configuration\<close>

text \<open>
  The local function \<^verbatim>\<open>_compare\<close> of \<^verbatim>\<open>check_checkpoint_args\<close>, with the two objects it
  closes over as arguments.
\<close>

definition compare' :: "pyval \<Rightarrow> args \<Rightarrow> string \<Rightarrow> string option \<Rightarrow> unit run" where
  "compare' checkpoint_args args arg_name old_arg_name =
     andthen
       (case old_arg_name of
          Some old \<Rightarrow> getattr checkpoint_args old
        | None \<Rightarrow> getattr checkpoint_args arg_name)
       (\<lambda>checkpoint_value.
     andthen (getattr (PArgs args) arg_name) (\<lambda>args_value.
     let error_message =
           Formatted ''{} value from checkpoint ({}) is not equal to the input argument value ({}).''
             [PStr arg_name, checkpoint_value, args_value]
     in if py_eq checkpoint_value args_value then ret ()
        else raise (AssertionError error_message)))"

text \<open>
  The body of \<^verbatim>\<open>check_checkpoint_args\<close> is its docstring and the definition of \<^verbatim>\<open>_compare\<close>:
  it calls nothing and returns \<^verbatim>\<open>None\<close>.
\<close>

definition check_checkpoint_args :: "pyval \<Rightarrow> args \<Rightarrow> unit run" where
  "check_checkpoint_args checkpoint_args args = ret ()"

section \<open>Reading the tracker file\<close>

text \<open>
  The first half of \<^verbatim>\<open>read_metadata\<close>: the tracker file is read and gives the iteration, or
  marks a release checkpoint.
\<close>

definition read_tracker :: "process \<Rightarrow> string \<Rightarrow> (int \<times> bool) run" where
  "read_tracker p tracker_filename =
     (case files p tracker_filename of
        None \<Rightarrow> raise (FileNotFoundError tracker_filename)
      | Some (Pickle sd) \<Rightarrow> raise UnicodeDecodeError
      | Some (Text_file content) \<Rightarrow>
          (let metastring = strip content in
           andthen
             (case py_int metastring of
                Some iteration \<Rightarrow> ret (iteration, False)
              | None \<Rightarrow>
                  (let release = (metastring = ''release'') in
                   if \<not> release then
                     andthen
                       (print_rank_0 (Text (''ERROR: Invalid metadata file '' @ tracker_filename
                                              @ ''. Exiting'')))
                       (\<lambda>_. sys_exit ())
                   else ret (0, release)))
             (\<lambda>(iteration, release).
                if iteration > 0 \<or> release then ret (iteration, release)
                else raise (AssertionError
                              (Text (''error parsing metadata file '' @ tracker_filename))))))"

text \<open>
  \<^verbatim>\<open>torch.cuda.LongTensor([iteration])\<close>: a tensor of one signed 64-bit integer, given by
  that integer; a Python integer outside the range is refused.
\<close>

definition LongTensor :: "int \<Rightarrow> int run" where
  "LongTensor i =
     (if - (2 ^ 63) \<le> i \<and> i < 2 ^ 63 then ret i
      else raise (RuntimeError ''Overflow when unpacking long''))"

text \<open>
  \<^verbatim>\<open>torch.distributed.all_reduce(..., op=MAX)\<close> as one rank sees it: \<open>peers\<close> are the values
  the other ranks of the group contribute, and every rank receives the maximum of all.
\<close>

definition all_reduce_MAX :: "int \<Rightarrow> int list \<Rightarrow> int" where
  "all_reduce_MAX x peers = fold max peers x"

definition read_metadata :: "topology \<Rightarrow> int list \<Rightarrow> process \<Rightarrow> string \<Rightarrow> (int \<times> bool) run" where
  "read_metadata mpu peers p tracker_filename =
     andthen (read_tracker p tracker_filename) (\<lambda>(iteration, release).
     andthen (LongTensor iteration) (\<lambda>iters_cuda.
     let max_iter = all_reduce_MAX iters_cuda peers in
     andthen
       (if iteration \<noteq> max_iter then
          print (Text (''WARNING: on rank '' @ str_int (get_pipe_parallel_rank mpu)
                        @ '' found iteration '' @ str_int iteration
                        @ '' in the metadata while max iteration across the ranks is ''
                        @ str_int max_iter @ '', replacing it with max iteration.''))
        else ret ())
       (\<lambda>_. ret (max_iter, release))))"

text \<open>
  All ranks together. A rank contributes its local iteration to the reduction if it gets
  as far; the reduction completes on a rank only when every other rank contributes, and
  \<open>None\<close> stands for a rank that waits in it forever.
\<close>

definition contribution :: "process \<Rightarrow> string \<Rightarrow> int option" where
  "contribution p tracker_filename =
     (case snd (andthen (read_tracker p tracker_filename)
                  (\<lambda>(iteration, release). LongTensor iteration)) of
        Inr iters_cuda \<Rightarrow> Some iters_cuda
      | Inl e \<Rightarrow> None)"

definition read_metadata_all :: "(topology \<times> process) list \<Rightarrow> string \<Rightarrow> (int \<times> bool) run option list" where
  "read_metadata_all ranks tracker_filename =
     (let contributed = map (\<lambda>(mpu, p). contribution p tracker_filename) ranks in
      map (\<lambda>k.
             (let mpu = fst (ranks ! k);
                  p = snd (ranks ! k);
                  others = take k contributed @ drop (Suc k) contributed
              in if contributed ! k = None then Some (read_metadata mpu [] p tracker_filename)
                 else if list_all (\<lambda>c. c \<noteq> None) others
                 then Some (read_metadata mpu (map the others) p tracker_filename)
                 else None))
          [0..<length ranks])"

section \<open>Saving a checkpoint\<close>

text \<open>
  \<^verbatim>\<open>save_checkpoint\<close> on one rank. The dictionary \<^verbatim>\<open>state_dict\<close> of the source is \<open>sd\<close>
  here. The barriers change no state.
\<close>

definition save_checkpoint ::
  "topology \<Rightarrow> process \<Rightarrow> int \<Rightarrow> model_arg \<Rightarrow> component option \<Rightarrow> component option
     \<Rightarrow> args \<Rightarrow> pyval \<Rightarrow> process run" where
  "save_checkpoint mpu p iteration model optimizer lr_scheduler args epoch =
     (let model = unwrap_model model in
      andthen
        (print_rank_0 (Text (''saving checkpoint at iteration '' @ format_d 7 iteration
                              @ '' to '' @ output_dir args @ ''/ckpt'')))
        (\<lambda>_.
      andthen
        (if \<not> is_initialized mpu \<or> get_data_parallel_rank mpu = 0 then
           (let sd = Map.empty;
                sd = sd(''args'' \<mapsto> PArgs args);
                sd = sd(''checkpoint_version'' \<mapsto> PFloat 3);
                sd = sd(''iteration'' \<mapsto> PInt iteration)
            in andthen (model_state_dict model) (\<lambda>model_state.
               let sd = sd(''model'' \<mapsto> model_state);
                   sd = sd(''epoch'' \<mapsto> epoch);
                   sd = (if \<not> no_save_optim args then
                           (let sd = (case optimizer of
                                        Some opt \<Rightarrow> sd(''optimizer'' \<mapsto> state_dict opt)
                                      | None \<Rightarrow> sd)
                            in (case lr_scheduler of
                                  Some sch \<Rightarrow> sd(''lr_scheduler'' \<mapsto> state_dict sch)
                                | None \<Rightarrow> sd))
                         else sd);
                   sd = (if \<not> no_save_rng args then
                           sd(''random_rng_state'' \<mapsto> random_rng_state p,
                              ''np_rng_state'' \<mapsto> np_rng_state p,
                              ''torch_rng_state'' \<mapsto> torch_rng_state p,
                              ''cuda_rng_state'' \<mapsto> cuda_rng_state p,
                              ''rng_tracker_states'' \<mapsto> rng_tracker_states p)
                         else sd);
                   checkpoint_name =
                     get_checkpoint_name mpu (output_dir args @ ''/ckpt'') iteration False False
               in andthen (ensure_directory_exists p checkpoint_name) (\<lambda>p.
                  ret (torch_save p sd checkpoint_name))))
         else ret p)
        (\<lambda>p.
      andthen
        (print_rank_0 (Text (''  successfully saved checkpoint at iteration ''
                              @ format_d 7 iteration @ '' to '' @ output_dir args @ ''/ckpt'')))
        (\<lambda>_.
      ret (if \<not> is_initialized mpu \<or> get_rank mpu = 0 then
             (let tracker_filename =
                    get_checkpoint_tracker_filename (output_dir args @ ''/ckpt'')
              in p\<lparr>files := (files p)(tracker_filename \<mapsto> Text_file (str_int iteration))\<rparr>)
           else p)))))"

text \<open>
  The dictionary that \<^verbatim>\<open>save_checkpoint\<close> assembles, as one expression of the state of the
  model; the lemma \<open>save_checkpoint_writes\<close> below shows that this is what the code stores.
\<close>

definition saved_state_dict ::
  "process \<Rightarrow> int \<Rightarrow> pyval \<Rightarrow> component option \<Rightarrow> component option \<Rightarrow> args \<Rightarrow> pyval \<Rightarrow> blob" where
  "saved_state_dict p iteration model_state optimizer lr_scheduler args epoch =
     (let sd = [''args'' \<mapsto> PArgs args, ''checkpoint_version'' \<mapsto> PFloat 3,
                ''iteration'' \<mapsto> PInt iteration, ''model'' \<mapsto> model_state,
                ''epoch'' \<mapsto> epoch];
          sd = (if \<not> no_save_optim args then
                  (let sd = (case optimizer of
                               Some opt \<Rightarrow> sd(''optimizer'' \<mapsto> state_dict opt)
                             | None \<Rightarrow> sd)
                   in (case lr_scheduler of
                         Some sch \<Rightarrow> sd(''lr_scheduler'' \<mapsto> state_dict sch)
                       | None \<Rightarrow> sd))
                else sd)
      in if \<not> no_save_rng args then
           sd(''random_rng_state'' \<mapsto> random_rng_state p,
              ''np_rng_state'' \<mapsto> np_rng_state p,
              ''torch_rng_state'' \<mapsto> torch_rng_state p,
              ''cuda_rng_state'' \<mapsto> cuda_rng_state p,
              ''rng_tracker_states'' \<mapsto> rng_tracker_states p)
         else sd)"

section \<open>Loading a checkpoint\<close>

text \<open>
  What \<^verbatim>\<open>load_checkpoint\<close> leaves behind when it returns: the value it returns, and the
  objects it has changed in place.
\<close>

record loaded =
  returned :: pyval
  process_after :: process
  model_after :: model_arg
  optimizer_after :: "component option"
  lr_scheduler_after :: "component option"
  args_after :: args

text \<open>The step \<^verbatim>\<open># Set iteration.\<close>\<close>

definition load_iteration :: "args \<Rightarrow> bool \<Rightarrow> blob \<Rightarrow> string \<Rightarrow> pyval run" where
  "load_iteration args release sd checkpoint_name =
     (if finetune args \<or> release then ret (PInt 0)
      else
        (case sd ''iteration'' of
           Some iteration \<Rightarrow> ret iteration
         | None \<Rightarrow>
             (case sd ''total_iters'' of
                Some iteration \<Rightarrow> ret iteration
              | None \<Rightarrow>
                  andthen
                    (print_rank_0
                       (Text (''A metadata file exists but unable to load iteration from checkpoint ''
                                @ checkpoint_name @ '', exiting'')))
                    (\<lambda>_. sys_exit ()))))"

text \<open>
  The step \<^verbatim>\<open># Check arguments.\<close> \<^verbatim>\<open>getattr(checkpoint_args, name, 0)\<close> is the attribute if
  the stored object has it and 0 otherwise.
\<close>

definition load_args :: "args \<Rightarrow> blob \<Rightarrow> args run" where
  "load_args args sd =
     (case sd ''args'' of
        Some checkpoint_args \<Rightarrow>
          andthen (check_checkpoint_args checkpoint_args args) (\<lambda>_.
          let args = args\<lparr>consumed_train_samples :=
                       Some (case checkpoint_args of
                               PArgs a \<Rightarrow> (case consumed_train_samples a of Some c \<Rightarrow> c | None \<Rightarrow> 0)
                             | _ \<Rightarrow> 0)\<rparr>;
              args = args\<lparr>consumed_valid_samples :=
                       Some (case checkpoint_args of
                               PArgs a \<Rightarrow> (case consumed_valid_samples a of Some c \<Rightarrow> c | None \<Rightarrow> 0)
                             | _ \<Rightarrow> 0)\<rparr>
          in ret args)
      | None \<Rightarrow>
          andthen (print_rank_0 (Text ''could not find arguments in the checkpoint ...''))
            (\<lambda>_. ret args))"

text \<open>
  The step \<^verbatim>\<open># Optimizer.\<close> An optimizer and a scheduler take no flag \<^verbatim>\<open>strict\<close>; their
  \<open>accepts\<close> is asked with \<open>True\<close>.
\<close>

definition load_optimizer ::
  "args \<Rightarrow> bool \<Rightarrow> blob \<Rightarrow> string \<Rightarrow> component option \<Rightarrow> component option
     \<Rightarrow> (component option \<times> component option) run" where
  "load_optimizer args release sd checkpoint_name optimizer lr_scheduler =
     (if \<not> release \<and> \<not> finetune args \<and> \<not> no_load_optim args then
        except_KeyError
          (andthen
             (case optimizer of
                Some opt \<Rightarrow>
                  andthen (getitem sd ''optimizer'') (\<lambda>v.
                  andthen (load_state_dict opt v True) (\<lambda>opt'. ret (Some opt')))
              | None \<Rightarrow> ret None)
             (\<lambda>optimizer.
           andthen
             (case lr_scheduler of
                Some sch \<Rightarrow>
                  andthen (getitem sd ''lr_scheduler'') (\<lambda>v.
                  andthen (load_state_dict sch v True) (\<lambda>sch'. ret (Some sch')))
              | None \<Rightarrow> ret None)
             (\<lambda>lr_scheduler. ret (optimizer, lr_scheduler))))
          (andthen
             (print_rank_0
                (Text (''Unable to load optimizer from checkpoint '' @ checkpoint_name
                         @ ''. Specify --no-load-optim or --finetune to prevent attempting to load the optimizer state, exiting ...'')))
             (\<lambda>_. sys_exit ()))
      else ret (optimizer, lr_scheduler))"

text \<open>The step \<^verbatim>\<open># rng states.\<close>\<close>

definition load_rng :: "args \<Rightarrow> bool \<Rightarrow> blob \<Rightarrow> string \<Rightarrow> process \<Rightarrow> process run" where
  "load_rng args release sd checkpoint_name p =
     (if \<not> release \<and> \<not> finetune args \<and> \<not> no_load_rng args then
        except_KeyError
          (andthen (getitem sd ''random_rng_state'') (\<lambda>v.
           andthen (random_setstate p v) (\<lambda>p.
           andthen (getitem sd ''np_rng_state'') (\<lambda>v.
           andthen (np_random_set_state p v) (\<lambda>p.
           andthen (getitem sd ''torch_rng_state'') (\<lambda>v.
           andthen (torch_set_rng_state p v) (\<lambda>p.
           andthen (getitem sd ''cuda_rng_state'') (\<lambda>v.
           andthen (torch_cuda_set_rng_state p v) (\<lambda>p.
           andthen (getitem sd ''rng_tracker_states'') (\<lambda>v.
           andthen (if \<not> py_truthy v then raise (KeyError []) else ret ()) (\<lambda>_.
           andthen (getitem sd ''rng_tracker_states'') (\<lambda>v.
           tracker_set_states p v))))))))))))
          (andthen
             (print_rank_0
                (Text (''Unable to load rng state from checkpoint '' @ checkpoint_name
                         @ ''. Specify --no-load-rng or --finetune to prevent attempting to load the rng state, exiting ...'')))
             (\<lambda>_. sys_exit ()))
      else ret p)"

text \<open>
  \<^verbatim>\<open>load_checkpoint\<close> on one rank; \<open>peers\<close> are the iterations the other ranks contribute
  when the tracker is reconciled. The parameter \<^verbatim>\<open>load_arg\<close> of the source is not used
  there and is left out. The barrier changes no state.
\<close>

definition load_checkpoint ::
  "topology \<Rightarrow> int list \<Rightarrow> process \<Rightarrow> model_arg \<Rightarrow> component option \<Rightarrow> component option
     \<Rightarrow> args \<Rightarrow> bool \<Rightarrow> loaded run" where
  "load_checkpoint mpu peers p model optimizer lr_scheduler args strict =
     (let load_dir = resume_from_checkpoint args;
          model = unwrap_model model;
          tracker_filename = get_checkpoint_tracker_filename load_dir
      in
      if \<not> os_path_isfile p tracker_filename then
        andthen
          (print_rank_0 (Text (''WARNING: could not find the metadata file ''
                                @ tracker_filename @ '' '')))
          (\<lambda>_.
        andthen
          (print_rank_0 (Text ''    will not load any checkpoints and will start from random''))
          (\<lambda>_.
        ret \<lparr>returned = PInt 0, process_after = p, model_after = model,
             optimizer_after = optimizer, lr_scheduler_after = lr_scheduler,
             args_after = args\<rparr>))
      else
        andthen (read_metadata mpu peers p tracker_filename) (\<lambda>(iteration, release).
        let checkpoint_name = get_checkpoint_name mpu load_dir iteration release False in
        andthen
          (print_rank_0 (Text ('' loading checkpoint from '' @ resume_from_checkpoint args
                                @ '' at iteration '' @ str_int iteration)))
          (\<lambda>_.
        andthen (print (Text checkpoint_name)) (\<lambda>_.
        andthen
          (case torch_load p checkpoint_name of
             Some sd \<Rightarrow> ret sd
           | None \<Rightarrow>
               andthen (print_rank_0 (Text ''could not load the checkpoint'')) (\<lambda>_.
               andthen (print_rank_0 Load_exception) (\<lambda>_. sys_exit ())))
          (\<lambda>sd.
        andthen
          (set_checkpoint_version p
             (case sd ''checkpoint_version'' of Some v \<Rightarrow> v | None \<Rightarrow> PInt 0))
          (\<lambda>p.
        andthen (getitem sd ''epoch'') (\<lambda>epoch.
        andthen (load_iteration args release sd checkpoint_name) (\<lambda>iteration.
        andthen (load_args args sd) (\<lambda>args.
        andthen (getitem sd ''model'') (\<lambda>v.
        andthen (model_load_state_dict model v strict) (\<lambda>model.
        let checkpoint_version = get_checkpoint_version p in
        andthen (print_rank_0 (Formatted '' checkpoint version {}'' [checkpoint_version])) (\<lambda>_.
        andthen (load_optimizer args release sd checkpoint_name optimizer lr_scheduler)
          (\<lambda>(optimizer, lr_scheduler).
        andthen (load_rng args release sd checkpoint_name p) (\<lambda>p.
        andthen
          (print_rank_0
             (Formatted ''  successfully loaded checkpoint from {} at iteration {}''
                [PStr (resume_from_checkpoint args), iteration]))
          (\<lambda>_.
        ret \<lparr>returned = PTuple [iteration, epoch], process_after = p, model_after = model,
             optimizer_after = optimizer, lr_scheduler_after = lr_scheduler,
             args_after = args\<rparr>)))))))))))))))"

section \<open>An example run\<close>

text \<open>
  One rank of a job without pipeline parallelism, a fresh process, a model and an
  optimizer that take any state, and a run configuration that saves to \<^verbatim>\<open>out\<close> and resumes
  from \<^verbatim>\<open>out/ckpt\<close>.
\<close>

definition example_mpu :: topology where
  "example_mpu =
     \<lparr>is_initialized = True, get_rank = 0, get_data_parallel_rank = 0,
      get_pipe_parallel_world_size = 1, get_tensor_model_parallel_rank = 0,
      get_model_parallel_rank = 0, get_pipe_parallel_rank = 0\<rparr>"

definition example_process :: process where
  "example_process =
     \<lparr>CHECKPOINT_VERSION = PNone,
      random_rng_state = PInt 11, np_rng_state = PInt 12, torch_rng_state = PInt 13,
      cuda_rng_state = PInt 14, rng_tracker_states = PDict [(''model-parallel-rng'', PInt 15)],
      files = Map.empty, dirs = []\<rparr>"

definition example_args :: args where
  "example_args =
     \<lparr>output_dir = ''out'', resume_from_checkpoint = ''out/ckpt'',
      no_save_optim = False, no_save_rng = False, finetune = False,
      no_load_optim = False, no_load_rng = False,
      consumed_train_samples = None, consumed_valid_samples = None,
      attrs = [(''num_layers'', 12)]\<rparr>"

definition example_model :: component where
  "example_model = \<lparr>state_dict = PDict [(''weight'', PInt 1)], accepts = (\<lambda>sd strict. True)\<rparr>"

definition example_optimizer :: component where
  "example_optimizer = \<lparr>state_dict = PDict [(''lr'', PInt 2)], accepts = (\<lambda>sd strict. True)\<rparr>"

text \<open>A save on that rank, and four ranks that each see a tracker file of their own.\<close>

definition example_save :: "int \<Rightarrow> args \<Rightarrow> process run" where
  "example_save N a =
     save_checkpoint example_mpu example_process N (Single example_model)
       (Some example_optimizer) None a (PInt 2)"

definition example_rank :: "int \<Rightarrow> string \<Rightarrow> topology \<times> process" where
  "example_rank r content =
     (example_mpu\<lparr>get_rank := r, get_pipe_parallel_world_size := 4, get_pipe_parallel_rank := r\<rparr>,
      example_process\<lparr>files := [''out/ckpt/latest_checkpointed_iteration.txt'' \<mapsto> Text_file content]\<rparr>)"

definition example_ranks :: "(topology \<times> process) list" where
  "example_ranks = [example_rank 0 ''5'', example_rank 1 ''5'', example_rank 2 ''3'', example_rank 3 ''5'']"

text \<open>The same save from a process whose generator tracker holds no states.\<close>

definition example_save_empty_tracker :: "int \<Rightarrow> args \<Rightarrow> process run" where
  "example_save_empty_tracker N a =
     save_checkpoint example_mpu (example_process\<lparr>rng_tracker_states := PDict []\<rparr>) N
       (Single example_model) (Some example_optimizer) None a (PInt 2)"

text \<open>A run configuration that differs from the example in a structural attribute.\<close>

definition example_args_other_shape :: args where
  "example_args_other_shape = example_args\<lparr>attrs := [(''num_layers'', 24)]\<rparr>"

section \<open>Decimal text: writing and reading back\<close>

lemma digit_cases: "d < 10 \<Longrightarrow> d \<in> {0, 1, 2, 3, 4, 5, 6, 7, 8, 9 :: nat}"
  by auto

lemma digit_val_digit_char: "d < 10 \<Longrightarrow> digit_val (digit_char d) = d"
  using digit_cases[of d] by (auto simp: digit_val_def digit_char_def)

lemma is_digit_digit_char: "d < 10 \<Longrightarrow> is_digit (digit_char d)"
  using digit_cases[of d] by (auto simp: is_digit_def digit_char_def)

lemma digits_of_nonempty: "digits_of n \<noteq> []"
  by (subst digits_of.simps) simp

lemma digits_of_all_digits: "list_all is_digit (digits_of n)"
proof (induction n rule: digits_of.induct)
  case (1 n)
  show ?case
  proof (cases "n < 10")
    case True
    then show ?thesis by (simp add: digits_of.simps[of n] is_digit_digit_char)
  next
    case False
    with "1.IH" show ?thesis
      by (simp add: digits_of.simps[of n] is_digit_digit_char)
  qed
qed


lemma decimal_value_snoc: "decimal_value (ds @ [c]) = 10 * decimal_value ds + digit_val c"
  by (simp add: decimal_value_def)

lemma decimal_value_digits_of: "decimal_value (digits_of n) = n"
proof (induction n rule: digits_of.induct)
  case (1 n)
  show ?case
  proof (cases "n < 10")
    case True
    then show ?thesis
      by (simp add: digits_of.simps[of n] decimal_value_def digit_val_digit_char)
  next
    case False
    with "1.IH" have "decimal_value (digits_of (n div 10)) = n div 10" by simp
    with False show ?thesis
      by (simp add: digits_of.simps[of n] decimal_value_snoc digit_val_digit_char)
  qed
qed

lemma decimal_value_zeros: "decimal_value (replicate k (CHR ''0'') @ ds) = decimal_value ds"
proof -
  have "foldl (\<lambda>a c. 10 * a + digit_val c) 0 (replicate k (CHR ''0'')) = 0"
    by (induction k) (simp_all add: digit_val_def)
  then show ?thesis by (simp add: decimal_value_def)
qed

lemma int_digits_all_digits:
  "list_all is_digit ds \<Longrightarrow>
   int_digits acc prev ds =
     (if ds = [] then (if prev then Some acc else None)
      else Some (foldl (\<lambda>a c. 10 * a + digit_val c) acc ds))"
  by (induction ds arbitrary: acc prev) auto

lemma int_digits_digits_of: "int_digits 0 False (digits_of n) = Some n"
  using int_digits_all_digits[OF digits_of_all_digits, of 0 False n]
        decimal_value_digits_of[of n]
  by (simp add: digits_of_nonempty decimal_value_def)

lemma not_space_digit: "is_digit c \<Longrightarrow> \<not> is_space c"
  by (auto simp: is_digit_def is_space_def)

lemma dropWhile_keeps: "xs \<noteq> [] \<Longrightarrow> \<not> P (hd xs) \<Longrightarrow> dropWhile P xs = xs"
  by (cases xs) auto

lemma strip_no_space:
  assumes "s \<noteq> []" and "\<not> is_space (hd s)" and "\<not> is_space (last s)"
  shows "strip s = s"
proof -
  have "dropWhile is_space s = s"
    using assms by (simp add: dropWhile_keeps)
  moreover have "dropWhile is_space (rev s) = rev s"
    using assms by (simp add: dropWhile_keeps hd_rev)
  ultimately show ?thesis by (simp add: strip_def)
qed

lemma hd_digits_of: "is_digit (hd (digits_of n))"
  using digits_of_all_digits[of n] digits_of_nonempty[of n]
  by (cases "digits_of n") auto

lemma last_digits_of: "is_digit (last (digits_of n))"
  using digits_of_all_digits[of n] digits_of_nonempty[of n]
  by (cases "digits_of n" rule: rev_cases) auto

lemma py_int_str_int: "py_int (str_int i) = Some i"
proof (cases "i < 0")
  case True
  have "strip (CHR ''-'' # digits_of (nat (- i))) = CHR ''-'' # digits_of (nat (- i))"
    using last_digits_of[of "nat (- i)"] digits_of_nonempty[of "nat (- i)"]
    by (intro strip_no_space) (auto simp: is_space_def dest: not_space_digit)
  with True show ?thesis
    by (simp add: py_int_def str_int_def int_digits_digits_of)
next
  case False
  have s: "strip (digits_of (nat i)) = digits_of (nat i)"
    using hd_digits_of[of "nat i"] last_digits_of[of "nat i"] digits_of_nonempty[of "nat i"]
    by (intro strip_no_space) (auto dest: not_space_digit)
  obtain c cs where ccs: "digits_of (nat i) = c # cs"
    using digits_of_nonempty[of "nat i"] by (cases "digits_of (nat i)") auto
  have "is_digit c" using hd_digits_of[of "nat i"] ccs by simp
  then have "c \<noteq> CHR ''-''" "c \<noteq> CHR ''+''" by (auto simp: is_digit_def)
  moreover have "int_digits 0 False (c # cs) = Some (nat i)"
    using int_digits_digits_of[of "nat i"] ccs by simp
  ultimately show ?thesis using False s ccs
    by (simp add: py_int_def str_int_def)
qed

section \<open>Formatted numbers and joined paths\<close>

lemma format_0d_nonempty: "format_0d w i \<noteq> []"
  by (simp add: format_0d_def Let_def digits_of_nonempty)

lemma last_format_0d: "last (format_0d w i) = last (digits_of (nat \<bar>i\<bar>))"
  by (simp add: format_0d_def Let_def digits_of_nonempty)

lemma is_digit_not_special:
  "is_digit c \<Longrightarrow> c \<noteq> CHR ''-'' \<and> c \<noteq> CHR ''+'' \<and> c \<noteq> CHR ''_'' \<and> c \<noteq> CHR ''/''"
  by (auto simp: is_digit_def)

lemma last_format_0d_not_slash: "last (format_0d w i) \<noteq> CHR ''/''"
  using last_digits_of[of "nat \<bar>i\<bar>"] is_digit_not_special
  by (simp only: last_format_0d) blast

lemma is_digit_zero: "is_digit (CHR ''0'')"
  by (simp add: is_digit_def)

lemma format_0d_chars: "c \<in> set (format_0d w i) \<Longrightarrow> is_digit c \<or> c = CHR ''-''"
proof -
  assume "c \<in> set (format_0d w i)"
  then have "c = CHR ''-'' \<or> c = CHR ''0'' \<or> c \<in> set (digits_of (nat \<bar>i\<bar>))"
    by (auto simp: format_0d_def Let_def split: if_splits)
  moreover have "c \<in> set (digits_of (nat \<bar>i\<bar>)) \<Longrightarrow> is_digit c"
    using digits_of_all_digits[of "nat \<bar>i\<bar>"] by (simp add: list_all_iff)
  ultimately show ?thesis using is_digit_zero by blast
qed

lemma format_0d_no_underscore: "CHR ''_'' \<notin> set (format_0d w i)"
  using format_0d_chars[of "CHR ''_''" w i] is_digit_not_special[of "CHR ''_''"] by blast

lemma format_0d_neg: "i < 0 \<Longrightarrow> format_0d w i = CHR ''-'' # replicate (w - (1 + length (digits_of (nat (- i))))) (CHR ''0'') @ digits_of (nat (- i))"
  by (simp add: format_0d_def Let_def)

lemma format_0d_nonneg: "0 \<le> i \<Longrightarrow> format_0d w i = replicate (w - length (digits_of (nat i))) (CHR ''0'') @ digits_of (nat i)"
  by (simp add: format_0d_def Let_def)

lemma hd_format_0d_nonneg: "0 \<le> i \<Longrightarrow> hd (format_0d w i) \<noteq> CHR ''-''"
proof -
  assume i: "0 \<le> i"
  have "hd (format_0d w i) \<in> set (format_0d w i)"
    using format_0d_nonempty[of w i] by (rule hd_in_set)
  then have "hd (format_0d w i) = CHR ''0'' \<or> hd (format_0d w i) \<in> set (digits_of (nat i))"
    using i by (auto simp: format_0d_nonneg)
  moreover have "c \<in> set (digits_of (nat i)) \<Longrightarrow> is_digit c" for c
    using digits_of_all_digits[of "nat i"] by (simp add: list_all_iff)
  ultimately have "is_digit (hd (format_0d w i))"
    using is_digit_zero by metis
  then show ?thesis using is_digit_not_special by blast
qed

text \<open>The integer can be read back from its formatted text.\<close>

lemma format_0d_read_back:
  "i = (if hd (format_0d w i) = CHR ''-'' then - int (decimal_value (tl (format_0d w i)))
        else int (decimal_value (format_0d w i)))"
proof (cases "i < 0")
  case True
  then show ?thesis
    by (simp add: format_0d_neg decimal_value_zeros decimal_value_digits_of)
next
  case False
  then have "0 \<le> i" by simp
  from hd_format_0d_nonneg[OF this, of w] this show ?thesis
    by (simp add: format_0d_nonneg decimal_value_zeros decimal_value_digits_of)
qed

lemma format_0d_inj:
  assumes "format_0d w i = format_0d w j"
  shows "i = j"
proof -
  let ?read = "\<lambda>s. if hd s = CHR ''-'' then - int (decimal_value (tl s)) else int (decimal_value s)"
  have "i = ?read (format_0d w i)" by (rule format_0d_read_back)
  also have "\<dots> = ?read (format_0d w j)" by (simp only: assms)
  also have "\<dots> = j" by (rule format_0d_read_back[symmetric])
  finally show ?thesis .
qed

lemma split_at_underscore:
  "CHR ''_'' \<notin> set x \<Longrightarrow> CHR ''_'' \<notin> set y \<Longrightarrow>
   x @ CHR ''_'' # r = y @ CHR ''_'' # s \<Longrightarrow> x = y \<and> r = s"
proof (induction x arbitrary: y)
  case Nil
  then show ?case by (cases y) auto
next
  case (Cons a x)
  then show ?case by (cases y) auto
qed

lemma os_path_join_relative:
  "b \<noteq> [] \<Longrightarrow> hd b \<noteq> CHR ''/'' \<Longrightarrow> os_path_join path (b # p) = os_path_join (dir_prefix path @ b) p"
  by (simp add: dir_prefix_def os_path_join.simps)

lemma dir_prefix_append:
  "b \<noteq> [] \<Longrightarrow> last b \<noteq> CHR ''/'' \<Longrightarrow> dir_prefix (x @ b) = x @ b @ ''/''"
  by (simp add: dir_prefix_def)

lemma os_path_join3:
  assumes "b1 \<noteq> []" "hd b1 \<noteq> CHR ''/''" "last b1 \<noteq> CHR ''/''"
      and "b2 \<noteq> []" "hd b2 \<noteq> CHR ''/''" "last b2 \<noteq> CHR ''/''"
      and "b3 \<noteq> []" "hd b3 \<noteq> CHR ''/''"
  shows "os_path_join base [b1, b2, b3] = dir_prefix base @ b1 @ ''/'' @ b2 @ ''/'' @ b3"
proof -
  have "os_path_join base [b1, b2, b3] = os_path_join (dir_prefix base @ b1) [b2, b3]"
    using assms(1,2) by (rule os_path_join_relative)
  also have "\<dots> = os_path_join (dir_prefix (dir_prefix base @ b1) @ b2) [b3]"
    using assms(4,5) by (rule os_path_join_relative)
  also have "\<dots> = os_path_join (dir_prefix (dir_prefix (dir_prefix base @ b1) @ b2) @ b3) []"
    using assms(7,8) by (rule os_path_join_relative)
  also have "dir_prefix (dir_prefix base @ b1) = dir_prefix base @ b1 @ ''/''"
    using assms(1,3) by (rule dir_prefix_append)
  also have "dir_prefix ((dir_prefix base @ b1 @ ''/'') @ b2) = (dir_prefix base @ b1 @ ''/'') @ b2 @ ''/''"
    using assms(4,6) by (rule dir_prefix_append)
  finally show ?thesis by (simp add: os_path_join.simps)
qed

lemma os_path_join2:
  assumes "b1 \<noteq> []" "hd b1 \<noteq> CHR ''/''" "last b1 \<noteq> CHR ''/''"
      and "b2 \<noteq> []" "hd b2 \<noteq> CHR ''/''"
  shows "os_path_join base [b1, b2] = dir_prefix base @ b1 @ ''/'' @ b2"
proof -
  have "os_path_join base [b1, b2] = os_path_join (dir_prefix base @ b1) [b2]"
    using assms(1,2) by (rule os_path_join_relative)
  also have "\<dots> = os_path_join (dir_prefix (dir_prefix base @ b1) @ b2) []"
    using assms(4,5) by (rule os_path_join_relative)
  also have "dir_prefix (dir_prefix base @ b1) = dir_prefix base @ b1 @ ''/''"
    using assms(1,3) by (rule dir_prefix_append)
  finally show ?thesis by (simp add: os_path_join.simps)
qed

section \<open>Checkpoint names: shape and injectivity\<close>

lemma directory_facts:
  fixes d :: string
  assumes "d = (if rel then ''release'' else ''iter_'' @ format_0d 7 it)"
  shows "d \<noteq> []" "hd d \<noteq> CHR ''/''" "last d \<noteq> CHR ''/''"
  using assms last_format_0d_not_slash[of 7 it] format_0d_nonempty[of 7 it]
  by (auto split: if_splits)

lemma ends_with_number:
  "(x @ format_0d w i) \<noteq> []" "last (x @ format_0d w i) \<noteq> CHR ''/''"
  using last_format_0d_not_slash[of w i] format_0d_nonempty[of w i] by auto

lemma name_flat_pp1:
  assumes pp: "get_pipe_parallel_world_size mpu = 1"
  shows "get_checkpoint_name mpu base it rel False =
     dir_prefix base @ (if rel then ''release'' else ''iter_'' @ format_0d 7 it)
       @ ''/mp_rank_'' @ format_0d 2 (get_tensor_model_parallel_rank mpu) @ ''/model_optim_rng.pt''"
proof -
  let ?d = "if rel then ''release'' else ''iter_'' @ format_0d 7 it"
  let ?b2 = "''mp_rank_'' @ format_0d 2 (get_tensor_model_parallel_rank mpu)"
  have b2: "?b2 \<noteq> []" "hd ?b2 \<noteq> CHR ''/''" "last ?b2 \<noteq> CHR ''/''"
    using ends_with_number[of "''mp_rank_''"] by simp_all
  have "get_checkpoint_name mpu base it rel False = os_path_join base [?d, ?b2, ''model_optim_rng.pt'']"
    using pp by (simp add: get_checkpoint_name_def)
  also have "\<dots> = dir_prefix base @ ?d @ ''/'' @ ?b2 @ ''/'' @ ''model_optim_rng.pt''"
    by (rule os_path_join3[OF directory_facts[OF refl] b2]) simp_all
  finally show ?thesis by simp
qed

lemma name_flat_pp1_complete:
  assumes pp: "get_pipe_parallel_world_size mpu = 1"
  shows "get_checkpoint_name mpu base it rel True =
     dir_prefix base @ ''iter_'' @ format_0d 7 it @ ''_mp_rank_''
       @ format_0d 2 (get_tensor_model_parallel_rank mpu) @ ''/complete_model_optim.pt''"
proof -
  let ?b1 = "''iter_'' @ format_0d 7 it @ ''_mp_rank_'' @ format_0d 2 (get_tensor_model_parallel_rank mpu)"
  have b1: "?b1 \<noteq> []" "hd ?b1 \<noteq> CHR ''/''" "last ?b1 \<noteq> CHR ''/''"
    using ends_with_number[of "''iter_'' @ format_0d 7 it @ ''_mp_rank_''"] by simp_all
  have "get_checkpoint_name mpu base it rel True = os_path_join base [?b1, ''complete_model_optim.pt'']"
    using pp by (simp add: get_checkpoint_name_def)
  also have "\<dots> = dir_prefix base @ ?b1 @ ''/'' @ ''complete_model_optim.pt''"
    by (rule os_path_join2[OF b1]) simp_all
  finally show ?thesis by simp
qed

lemma name_flat_pp:
  assumes pp: "get_pipe_parallel_world_size mpu \<noteq> 1"
  shows "get_checkpoint_name mpu base it rel False =
     dir_prefix base @ (if rel then ''release'' else ''iter_'' @ format_0d 7 it)
       @ ''/mp_rank_'' @ format_0d 2 (get_model_parallel_rank mpu)
       @ ''_pp_rank_'' @ format_0d 3 (get_pipe_parallel_rank mpu) @ ''/model_optim_rng.pt''"
proof -
  let ?d = "if rel then ''release'' else ''iter_'' @ format_0d 7 it"
  let ?b2 = "''mp_rank_'' @ format_0d 2 (get_model_parallel_rank mpu) @ ''_pp_rank_''
               @ format_0d 3 (get_pipe_parallel_rank mpu)"
  have b2: "?b2 \<noteq> []" "hd ?b2 \<noteq> CHR ''/''" "last ?b2 \<noteq> CHR ''/''"
    using ends_with_number[of "''mp_rank_'' @ format_0d 2 (get_model_parallel_rank mpu) @ ''_pp_rank_''"]
    by simp_all
  have "get_checkpoint_name mpu base it rel False = os_path_join base [?d, ?b2, ''model_optim_rng.pt'']"
    using pp by (simp add: get_checkpoint_name_def)
  also have "\<dots> = dir_prefix base @ ?d @ ''/'' @ ?b2 @ ''/'' @ ''model_optim_rng.pt''"
    by (rule os_path_join3[OF directory_facts[OF refl] b2]) simp_all
  finally show ?thesis by simp
qed

lemma name_flat_pp_complete:
  assumes pp: "get_pipe_parallel_world_size mpu \<noteq> 1"
  shows "get_checkpoint_name mpu base it rel True =
     dir_prefix base @ (if rel then ''release'' else ''iter_'' @ format_0d 7 it)
       @ ''/iter_'' @ format_0d 7 it @ ''_mp_rank_'' @ format_0d 2 (get_model_parallel_rank mpu)
       @ ''_pp_rank_'' @ format_0d 3 (get_pipe_parallel_rank mpu) @ ''/complete_model_optim.pt''"
proof -
  let ?d = "if rel then ''release'' else ''iter_'' @ format_0d 7 it"
  let ?b2 = "''iter_'' @ format_0d 7 it @ ''_mp_rank_'' @ format_0d 2 (get_model_parallel_rank mpu)
               @ ''_pp_rank_'' @ format_0d 3 (get_pipe_parallel_rank mpu)"
  have b2: "?b2 \<noteq> []" "hd ?b2 \<noteq> CHR ''/''" "last ?b2 \<noteq> CHR ''/''"
    using ends_with_number[of "''iter_'' @ format_0d 7 it @ ''_mp_rank_''
             @ format_0d 2 (get_model_parallel_rank mpu) @ ''_pp_rank_''"]
    by simp_all
  have "get_checkpoint_name mpu base it rel True = os_path_join base [?d, ?b2, ''complete_model_optim.pt'']"
    using pp by (simp add: get_checkpoint_name_def)
  also have "\<dots> = dir_prefix base @ ?d @ ''/'' @ ?b2 @ ''/'' @ ''complete_model_optim.pt''"
    by (rule os_path_join3[OF directory_facts[OF refl] b2]) simp_all
  finally show ?thesis by simp
qed

lemma two_ranks_inj:
  assumes "format_0d 2 m @ ''_pp_rank_'' @ format_0d 3 q @ s
         = format_0d 2 m' @ ''_pp_rank_'' @ format_0d 3 q' @ s"
  shows "m = m' \<and> q = q'"
proof -
  have "format_0d 2 m @ CHR ''_'' # (''pp_rank_'' @ format_0d 3 q @ s)
      = format_0d 2 m' @ CHR ''_'' # (''pp_rank_'' @ format_0d 3 q' @ s)"
    using assms by simp
  then have "format_0d 2 m = format_0d 2 m' \<and> ''pp_rank_'' @ format_0d 3 q @ s = ''pp_rank_'' @ format_0d 3 q' @ s"
    by (rule split_at_underscore[OF format_0d_no_underscore format_0d_no_underscore])
  then show ?thesis by (auto dest: format_0d_inj)
qed

lemma name_inj_pp1:
  assumes "get_pipe_parallel_world_size mpu = 1" "get_pipe_parallel_world_size mpu' = 1"
      and "get_checkpoint_name mpu base it rel c = get_checkpoint_name mpu' base it rel c"
  shows "get_tensor_model_parallel_rank mpu = get_tensor_model_parallel_rank mpu'"
proof (cases c)
  case True
  with assms show ?thesis
    by (simp add: name_flat_pp1_complete) (rule format_0d_inj)
next
  case False
  with assms show ?thesis
    by (simp add: name_flat_pp1) (rule format_0d_inj)
qed

lemma name_inj_pp:
  assumes "get_pipe_parallel_world_size mpu \<noteq> 1" "get_pipe_parallel_world_size mpu' \<noteq> 1"
      and "get_checkpoint_name mpu base it rel c = get_checkpoint_name mpu' base it rel c"
  shows "get_model_parallel_rank mpu = get_model_parallel_rank mpu'
       \<and> get_pipe_parallel_rank mpu = get_pipe_parallel_rank mpu'"
proof -
  have "format_0d 2 (get_model_parallel_rank mpu) @ ''_pp_rank_''
          @ format_0d 3 (get_pipe_parallel_rank mpu) @ []
      = format_0d 2 (get_model_parallel_rank mpu') @ ''_pp_rank_''
          @ format_0d 3 (get_pipe_parallel_rank mpu') @ []"
    using assms by (cases c) (simp_all add: name_flat_pp_complete name_flat_pp)
  then show ?thesis by (rule two_ranks_inj)
qed


lemma name_stable:
  assumes "get_pipe_parallel_world_size mpu' = get_pipe_parallel_world_size mpu"
      and "get_tensor_model_parallel_rank mpu' = get_tensor_model_parallel_rank mpu"
      and "get_model_parallel_rank mpu' = get_model_parallel_rank mpu"
      and "get_pipe_parallel_rank mpu' = get_pipe_parallel_rank mpu"
  shows "get_checkpoint_name mpu' base it rel c = get_checkpoint_name mpu base it rel c"
  by (simp only: get_checkpoint_name_def assms)

text \<open>
  Claim C5. \<^verbatim>\<open>get_checkpoint_name\<close> is a function of its arguments and of the four
  topology queries it makes: two topologies that answer them alike give the same path.
  Without pipeline parallelism and with \<open>complete\<close> false the path is the root, then
  \<^verbatim>\<open>release\<close> or \<^verbatim>\<open>iter_\<close> and the iteration, then \<^verbatim>\<open>mp_rank_\<close> and the tensor rank, then
  \<^verbatim>\<open>model_optim_rng.pt\<close>, joined by slashes; a non-negative iteration is padded with zeros to
  7 digits and a non-negative rank to 2. For a fixed root, iteration, release and
  complete flag, two ranks of one job that get the same path have the same coordinates
  (the tensor rank without pipeline parallelism, the model-parallel and pipeline ranks
  with it): distinct coordinates give distinct paths.
\<close>

theorem get_checkpoint_name_format_injective:
  "(get_pipe_parallel_world_size mpu' = get_pipe_parallel_world_size mpu
      \<and> get_tensor_model_parallel_rank mpu' = get_tensor_model_parallel_rank mpu
      \<and> get_model_parallel_rank mpu' = get_model_parallel_rank mpu
      \<and> get_pipe_parallel_rank mpu' = get_pipe_parallel_rank mpu
    \<longrightarrow> get_checkpoint_name mpu' base it rel c = get_checkpoint_name mpu base it rel c)
   \<and> (get_pipe_parallel_world_size mpu = 1 \<longrightarrow>
        get_checkpoint_name mpu base it rel False =
          dir_prefix base @ (if rel then ''release'' else ''iter_'' @ format_0d 7 it)
            @ ''/mp_rank_'' @ format_0d 2 (get_tensor_model_parallel_rank mpu)
            @ ''/model_optim_rng.pt'')
   \<and> (0 \<le> it \<longrightarrow>
        format_0d 7 it = replicate (7 - length (digits_of (nat it))) (CHR ''0'') @ digits_of (nat it))
   \<and> (0 \<le> get_tensor_model_parallel_rank mpu \<longrightarrow>
        format_0d 2 (get_tensor_model_parallel_rank mpu) =
          replicate (2 - length (digits_of (nat (get_tensor_model_parallel_rank mpu)))) (CHR ''0'')
            @ digits_of (nat (get_tensor_model_parallel_rank mpu)))
   \<and> (get_pipe_parallel_world_size mpu' = get_pipe_parallel_world_size mpu
        \<and> get_checkpoint_name mpu' base it rel c = get_checkpoint_name mpu base it rel c
      \<longrightarrow> (if get_pipe_parallel_world_size mpu = 1
           then get_tensor_model_parallel_rank mpu' = get_tensor_model_parallel_rank mpu
           else get_model_parallel_rank mpu' = get_model_parallel_rank mpu
                \<and> get_pipe_parallel_rank mpu' = get_pipe_parallel_rank mpu))"
proof (intro conjI impI)
  assume "get_pipe_parallel_world_size mpu' = get_pipe_parallel_world_size mpu
      \<and> get_tensor_model_parallel_rank mpu' = get_tensor_model_parallel_rank mpu
      \<and> get_model_parallel_rank mpu' = get_model_parallel_rank mpu
      \<and> get_pipe_parallel_rank mpu' = get_pipe_parallel_rank mpu"
  then show "get_checkpoint_name mpu' base it rel c = get_checkpoint_name mpu base it rel c"
    by (intro name_stable) simp_all
next
  assume "get_pipe_parallel_world_size mpu = 1"
  then show "get_checkpoint_name mpu base it rel False =
          dir_prefix base @ (if rel then ''release'' else ''iter_'' @ format_0d 7 it)
            @ ''/mp_rank_'' @ format_0d 2 (get_tensor_model_parallel_rank mpu)
            @ ''/model_optim_rng.pt''"
    by (rule name_flat_pp1)
next
  assume "0 \<le> it"
  then show "format_0d 7 it = replicate (7 - length (digits_of (nat it))) (CHR ''0'') @ digits_of (nat it)"
    by (rule format_0d_nonneg)
next
  assume "0 \<le> get_tensor_model_parallel_rank mpu"
  then show "format_0d 2 (get_tensor_model_parallel_rank mpu) =
          replicate (2 - length (digits_of (nat (get_tensor_model_parallel_rank mpu)))) (CHR ''0'')
            @ digits_of (nat (get_tensor_model_parallel_rank mpu))"
    by (rule format_0d_nonneg)
next
  assume a: "get_pipe_parallel_world_size mpu' = get_pipe_parallel_world_size mpu
        \<and> get_checkpoint_name mpu' base it rel c = get_checkpoint_name mpu base it rel c"
  show "if get_pipe_parallel_world_size mpu = 1
           then get_tensor_model_parallel_rank mpu' = get_tensor_model_parallel_rank mpu
           else get_model_parallel_rank mpu' = get_model_parallel_rank mpu
                \<and> get_pipe_parallel_rank mpu' = get_pipe_parallel_rank mpu"
  proof (cases "get_pipe_parallel_world_size mpu = 1")
    case True
    with a name_inj_pp1[of mpu' mpu base it rel c] show ?thesis by simp
  next
    case False
    with a name_inj_pp[of mpu' mpu base it rel c] show ?thesis by simp
  qed
qed

theorem get_checkpoint_name_format_injective_witness:
  "get_checkpoint_name example_mpu ''out/ckpt'' 100 False False
     = ''out/ckpt/iter_0000100/mp_rank_00/model_optim_rng.pt''
   \<and> get_checkpoint_name (example_mpu\<lparr>get_tensor_model_parallel_rank := 1\<rparr>) ''out/ckpt'' 100 False False
       \<noteq> get_checkpoint_name example_mpu ''out/ckpt'' 100 False False"
proof -
  have pp: "get_pipe_parallel_world_size example_mpu = 1"
    by (simp add: example_mpu_def)
  have digits: "format_0d 7 100 = ''0000100''" "format_0d 2 0 = ''00''"
    by code_simp+
  have "get_checkpoint_name example_mpu ''out/ckpt'' 100 False False
     = ''out/ckpt/iter_0000100/mp_rank_00/model_optim_rng.pt''"
    using get_checkpoint_name_format_injective
            [of example_mpu example_mpu "''out/ckpt''" 100 False False] pp digits
    by (simp add: dir_prefix_def example_mpu_def)
  moreover have "get_checkpoint_name (example_mpu\<lparr>get_tensor_model_parallel_rank := 1\<rparr>) ''out/ckpt'' 100 False False
       \<noteq> get_checkpoint_name example_mpu ''out/ckpt'' 100 False False"
    using get_checkpoint_name_format_injective
            [of "example_mpu\<lparr>get_tensor_model_parallel_rank := 1\<rparr>" example_mpu "''out/ckpt''" 100 False False]
    by (auto simp: example_mpu_def)
  ultimately show ?thesis by simp
qed

text \<open>
  Claim C10. Without pipeline parallelism and with \<open>complete\<close> true, the path does not
  depend on the release flag: it names the iteration, padded to 7 digits, in the
  directory component, and never the directory \<^verbatim>\<open>release\<close>.
\<close>

theorem complete_name_ignores_release:
  assumes "get_pipe_parallel_world_size mpu = 1"
  shows "get_checkpoint_name mpu base it True True = get_checkpoint_name mpu base it False True
       \<and> get_checkpoint_name mpu base it rel True =
           dir_prefix base @ ''iter_'' @ format_0d 7 it @ ''_mp_rank_''
             @ format_0d 2 (get_tensor_model_parallel_rank mpu) @ ''/complete_model_optim.pt''"
  using assms by (simp add: name_flat_pp1_complete)

theorem complete_name_ignores_release_witness:
  "get_pipe_parallel_world_size example_mpu = 1
   \<and> get_checkpoint_name example_mpu ''out/ckpt'' 100 True True
       = ''out/ckpt/iter_0000100_mp_rank_00/complete_model_optim.pt''"
proof -
  have pp: "get_pipe_parallel_world_size example_mpu = 1"
    by (simp add: example_mpu_def)
  have "get_checkpoint_name example_mpu ''out/ckpt'' 100 False True
       = ''out/ckpt/iter_0000100_mp_rank_00/complete_model_optim.pt''"
    by code_simp
  with complete_name_ignores_release[OF pp, of "''out/ckpt''" 100 True] pp
  show ?thesis by simp
qed

section \<open>Runs: sequencing and results\<close>

lemma andthen_ret [simp]: "andthen (ret x) f = f x"
  by (simp add: andthen_def ret_def split: prod.splits)

lemma andthen_raise [simp]: "andthen (raise e) f = raise e"
  by (simp add: andthen_def raise_def)

lemma snd_andthen_Inr:
  "snd (andthen m f) = Inr y \<longleftrightarrow> (\<exists>x. snd m = Inr x \<and> snd (f x) = Inr y)"
  by (cases m; cases "snd m") (auto simp: andthen_def split: prod.splits)

lemma snd_andthen_print_rank_0 [simp]: "snd (andthen (print_rank_0 msg) f) = snd (f ())"
  by (simp add: andthen_def print_rank_0_def split: prod.splits)

lemma snd_andthen_print [simp]: "snd (andthen (print msg) f) = snd (f ())"
  by (simp add: andthen_def print_def split: prod.splits)

lemma snd_ret [simp]: "snd (ret x) = Inr x"
  by (simp add: ret_def)

lemma snd_raise [simp]: "snd (raise e) = Inl e"
  by (simp add: raise_def)

lemma py_eq_refl: "py_eq v v"
proof (induction v)
  case (PTuple xs)
  then show ?case by (simp add: list.rel_refl_strong)
next
  case (PDict kvs)
  have "list_all (\<lambda>(k, v). case map_of kvs k of
                            Some v' \<Rightarrow> (if map_of kvs k = Some v then py_eq v v' else True)
                          | None \<Rightarrow> False) kvs"
    unfolding list_all_iff
  proof (intro ballI, clarify)
    fix k v assume kv: "(k, v) \<in> set kvs"
    then obtain v' where v': "map_of kvs k = Some v'"
      by (metis map_of_eq_None_iff image_eqI fst_conv not_Some_eq)
    have "py_eq v v" using PDict kv by (auto simp: snds.simps)
    with v' show "case map_of kvs k of
                    Some v' \<Rightarrow> (if map_of kvs k = Some v then py_eq v v' else True)
                  | None \<Rightarrow> False"
      by auto
  qed
  moreover have "list_all (\<lambda>(k, v'). map_of kvs k \<noteq> None) kvs"
    by (auto simp: list_all_iff map_of_eq_None_iff intro: rev_image_eqI)
  ultimately show ?case by simp
next
  case (PArgs a)
  show ?case by (simp add: args_eq_def list_all_iff)
qed (simp_all add: num_of_def)

lemma set_checkpoint_version_result:
  "snd (set_checkpoint_version p v) = Inr p1 \<Longrightarrow>
   set_checkpoint_version p v = ([], Inr p1) \<and> p1 = p\<lparr>CHECKPOINT_VERSION := v\<rparr>"
  by (auto simp: set_checkpoint_version_def ret_def raise_def andthen_def split: if_splits)

lemma set_checkpoint_version_passes:
  "CHECKPOINT_VERSION p = PNone \<or> py_eq (CHECKPOINT_VERSION p) v \<Longrightarrow>
   set_checkpoint_version p v = ([], Inr (p\<lparr>CHECKPOINT_VERSION := v\<rparr>))"
  by (auto simp: set_checkpoint_version_def ret_def andthen_def)

lemma set_checkpoint_version_refuses:
  "CHECKPOINT_VERSION p \<noteq> PNone \<Longrightarrow> \<not> py_eq (CHECKPOINT_VERSION p) v \<Longrightarrow>
   set_checkpoint_version p v
     = ([], Inl (AssertionError (Text ''checkpoint versions do not match'')))"
  by (simp add: set_checkpoint_version_def raise_def andthen_def)




section \<open>The tracker: round trip and reconciliation\<close>

lemma strip_str_int: "strip (str_int i) = str_int i"
proof (cases "i < 0")
  case True
  have "strip (CHR ''-'' # digits_of (nat (- i))) = CHR ''-'' # digits_of (nat (- i))"
    using last_digits_of[of "nat (- i)"] digits_of_nonempty[of "nat (- i)"]
    by (intro strip_no_space) (auto simp: is_space_def dest: not_space_digit)
  with True show ?thesis by (simp add: str_int_def)
next
  case False
  have "strip (digits_of (nat i)) = digits_of (nat i)"
    using hd_digits_of[of "nat i"] last_digits_of[of "nat i"] digits_of_nonempty[of "nat i"]
    by (intro strip_no_space) (auto dest: not_space_digit)
  with False show ?thesis by (simp add: str_int_def)
qed

lemma fold_max_Max: "fold max peers (x::int) = Max (set (x # peers))"
  by (rule Max.set_eq_fold[symmetric])

lemma fold_max_dominated: "list_all (\<lambda>v. v \<le> x) peers \<Longrightarrow> fold max peers (x::int) = x"
  by (induction peers) (simp_all add: max_absorb2)

lemma read_tracker_of_str_int:
  assumes "files p fn = Some (Text_file (str_int N))" and "0 < N"
  shows "read_tracker p fn = ([], Inr (N, False))"
  using assms
  by (simp add: read_tracker_def strip_str_int py_int_str_int) (simp add: ret_def)

lemma save_checkpoint_tracker:
  assumes "\<not> is_initialized mpu \<or> get_rank mpu = 0"
      and "snd (save_checkpoint mpu p N model optimizer lr_scheduler args epoch) = Inr p'"
  shows "files p' (get_checkpoint_tracker_filename (output_dir args @ ''/ckpt''))
           = Some (Text_file (str_int N))"
proof -
  from assms(2) obtain x where
    "p' = (if \<not> is_initialized mpu \<or> get_rank mpu = 0 then
             (let tracker_filename = get_checkpoint_tracker_filename (output_dir args @ ''/ckpt'')
              in x\<lparr>files := (files x)(tracker_filename \<mapsto> Text_file (str_int N))\<rparr>)
           else x)"
    unfolding save_checkpoint_def Let_def
    by (simp only: snd_andthen_print_rank_0 snd_andthen_Inr snd_ret sum.inject) blast
  with assms(1) show ?thesis by (simp add: Let_def)
qed





lemma read_tracker_quiet: "snd (read_tracker p fn) = Inr r \<Longrightarrow> read_tracker p fn = ([], Inr r)"
  by (auto simp: read_tracker_def Let_def andthen_def ret_def raise_def print_rank_0_def sys_exit_def
           split: option.splits file_content.splits if_splits prod.splits sum.splits)

lemma read_tracker_nonneg:
  "snd (read_tracker p fn) = Inr (v, release) \<Longrightarrow> 0 \<le> v"
  by (auto simp: read_tracker_def Let_def andthen_def ret_def raise_def print_rank_0_def sys_exit_def
           split: option.splits file_content.splits if_splits prod.splits sum.splits)

lemma contribution_of_local:
  assumes "snd (read_tracker p fn) = Inr (v, release)" "v < 2 ^ 63"
  shows "contribution p fn = Some v"
  using read_tracker_quiet[OF assms(1)] read_tracker_nonneg[OF assms(1)] assms(2)
  by (simp add: contribution_def andthen_def LongTensor_def ret_def)

lemma read_metadata_of_local:
  assumes "snd (read_tracker p fn) = Inr (v, release)" "v < 2 ^ 63"
  shows "read_metadata mpu peers p fn =
           ((if v = Max (set (v # peers)) then []
             else [Print (Text (''WARNING: on rank '' @ str_int (get_pipe_parallel_rank mpu)
                        @ '' found iteration '' @ str_int v
                        @ '' in the metadata while max iteration across the ranks is ''
                        @ str_int (Max (set (v # peers))) @ '', replacing it with max iteration.''))]),
            Inr (Max (set (v # peers)), release))"
  using read_tracker_quiet[OF assms(1)] read_tracker_nonneg[OF assms(1)] assms(2)
  by (simp add: read_metadata_def all_reduce_MAX_def fold_max_Max andthen_def ret_def print_def
           LongTensor_def Let_def del: set_simps)

lemma set_without_nth:
  "k < length xs \<Longrightarrow> set (xs ! k # take k xs @ drop (Suc k) xs) = set xs"
proof -
  assume "k < length xs"
  then have "xs = take k xs @ xs ! k # drop (Suc k) xs" by (rule id_take_nth_drop)
  then have "set xs = set (take k xs @ xs ! k # drop (Suc k) xs)" by simp
  then show ?thesis by auto
qed

text \<open>
  Claim C4, amended. Let every rank read its tracker file without error, rank \<open>k\<close> reading
  the iteration \<open>locals ! k\<close> (a positive integer, or 0 with the release mark
  \<open>releases ! k\<close>), and let every iteration be below \<open>2^63\<close>, so that it fits the 64-bit
  tensor of the reduction. Then \<^verbatim>\<open>read_metadata\<close> returns the maximum of \<open>locals\<close> on every
  rank, and prints the warning on rank \<open>k\<close> exactly when \<open>locals ! k\<close> differs from that
  maximum; it prints nothing else.
\<close>

theorem read_metadata_all_reconciles:
  assumes "map (\<lambda>r. snd (read_tracker (snd r) tracker_filename)) ranks
             = map Inr (zip locals releases)"
      and "length releases = length locals"
      and "list_all (\<lambda>v. v < 2 ^ 63) locals"
      and "k < length ranks"
  shows "read_metadata_all ranks tracker_filename ! k =
           Some ((if locals ! k = Max (set locals) then []
                  else [Print (Text (''WARNING: on rank ''
                          @ str_int (get_pipe_parallel_rank (fst (ranks ! k)))
                          @ '' found iteration '' @ str_int (locals ! k)
                          @ '' in the metadata while max iteration across the ranks is ''
                          @ str_int (Max (set locals)) @ '', replacing it with max iteration.''))]),
                 Inr (Max (set locals), releases ! k))"
proof -
  let ?contributed = "map (\<lambda>(mpu, p). contribution p tracker_filename) ranks"
  let ?others = "take k locals @ drop (Suc k) locals"
  have len: "length locals = length ranks"
    using arg_cong[OF assms(1), of length] assms(2) by simp
  have local: "snd (read_tracker (snd (ranks ! j)) tracker_filename) = Inr (locals ! j, releases ! j)"
    if "j < length ranks" for j
    using arg_cong[OF assms(1), of "\<lambda>l. l ! j"] that len assms(2) by simp
  have bound: "locals ! j < 2 ^ 63" if "j < length ranks" for j
    using assms(3) that len by (simp add: list_all_length)
  have c: "?contributed = map Some locals"
  proof (rule nth_equalityI)
    show "length ?contributed = length (map Some locals)" using len by simp
  next
    fix j assume "j < length ?contributed"
    then have j: "j < length ranks" by simp
    from contribution_of_local[OF local[OF j] bound[OF j]] j len
    show "?contributed ! j = map Some locals ! j" by (simp add: case_prod_unfold)
  qed
  have others: "take k ?contributed @ drop (Suc k) ?contributed = map Some ?others"
    by (simp only: c take_map drop_map map_append)
  have all: "list_all (\<lambda>c. c \<noteq> None) (map Some ?others)"
    by (auto simp: list_all_iff)
  have the: "map the (map Some ?others) = ?others"
    by (simp add: comp_def)
  have Ck: "?contributed ! k = Some (locals ! k)"
    using assms(4) len by (simp only: c) simp
  have "read_metadata_all ranks tracker_filename ! k =
          (if ?contributed ! k = None
           then Some (read_metadata (fst (ranks ! k)) [] (snd (ranks ! k)) tracker_filename)
           else if list_all (\<lambda>c. c \<noteq> None) (take k ?contributed @ drop (Suc k) ?contributed)
           then Some (read_metadata (fst (ranks ! k))
                        (map the (take k ?contributed @ drop (Suc k) ?contributed))
                        (snd (ranks ! k)) tracker_filename)
           else None)"
    using assms(4) unfolding read_metadata_all_def Let_def by (subst nth_map) simp_all
  also have "\<dots> = Some (read_metadata (fst (ranks ! k)) ?others (snd (ranks ! k)) tracker_filename)"
    by (simp only: Ck others all the if_True if_False option.distinct)
  finally have nth: "read_metadata_all ranks tracker_filename ! k =
          Some (read_metadata (fst (ranks ! k)) ?others (snd (ranks ! k)) tracker_filename)" .
  have s: "set (locals ! k # ?others) = set locals"
    using assms(4) len by (intro set_without_nth) simp
  note rm = read_metadata_of_local[OF local[OF assms(4)] bound[OF assms(4)],
              of "fst (ranks ! k)" ?others]
  show ?thesis
    by (simp only: nth rm s)
qed

theorem read_metadata_all_reconciles_witness:
  "map (\<lambda>r. snd (read_tracker (snd r) ''out/ckpt/latest_checkpointed_iteration.txt'')) example_ranks
     = map Inr (zip [5, 5, 3, 5] [False, False, False, False])
   \<and> read_metadata_all example_ranks ''out/ckpt/latest_checkpointed_iteration.txt'' ! 0
       = Some ([], Inr (5, False))
   \<and> read_metadata_all example_ranks ''out/ckpt/latest_checkpointed_iteration.txt'' ! 2
       = Some ([Print (Text ''WARNING: on rank 2 found iteration 3 in the metadata while max iteration across the ranks is 5, replacing it with max iteration.'')],
               Inr (5, False))"
proof -
  let ?fn = "''out/ckpt/latest_checkpointed_iteration.txt''"
  have locals: "map (\<lambda>r. snd (read_tracker (snd r) ?fn)) example_ranks
                  = map Inr (zip [5, 5, 3, 5] [False, False, False, False])"
    by code_simp
  have lens: "length [False, False, False, False] = length [5, 5, 3, 5 :: int]"
    by simp
  have bounds: "list_all (\<lambda>v. v < 2 ^ 63) [5, 5, 3, 5 :: int]"
    by simp
  have len: "length example_ranks = 4"
    by (simp add: example_ranks_def)
  have m: "Max (set [5, 5, 3, 5 :: int]) = 5"
    by simp
  have texts: "str_int 2 = ''2''" "str_int 3 = ''3''" "str_int 5 = ''5''"
    by code_simp+
  have rank2: "get_pipe_parallel_rank (fst (example_ranks ! 2)) = 2"
    by (simp add: example_ranks_def example_rank_def)
  have "read_metadata_all example_ranks ?fn ! 0 = Some ([], Inr (5, False))"
    using read_metadata_all_reconciles[OF locals lens bounds, of 0] len by (simp only: m) simp
  moreover have "read_metadata_all example_ranks ?fn ! 2
          = Some ([Print (Text ''WARNING: on rank 2 found iteration 3 in the metadata while max iteration across the ranks is 5, replacing it with max iteration.'')],
                  Inr (5, False))"
    using read_metadata_all_reconciles[OF locals lens bounds, of 2] len
    by (simp only: m rank2) (simp add: texts)
  ultimately show ?thesis using locals by blast
qed

text \<open>
  Claim C4 as stated, for every vector, fails at the local values 5, 5, 0, 5: the rank that
  reads 0 stops at the assertion "error parsing metadata file" before the reduction, and the
  other ranks wait in the reduction for its value: no rank adopts the maximum 5.
\<close>

theorem read_metadata_all_zero_blocks:
  "map (\<lambda>r. files (snd r) ''out/ckpt/latest_checkpointed_iteration.txt'')
       [example_rank 0 ''5'', example_rank 1 ''5'', example_rank 2 ''0'', example_rank 3 ''5'']
     = [Some (Text_file ''5''), Some (Text_file ''5''), Some (Text_file ''0''), Some (Text_file ''5'')]
   \<and> read_metadata_all
       [example_rank 0 ''5'', example_rank 1 ''5'', example_rank 2 ''0'', example_rank 3 ''5'']
       ''out/ckpt/latest_checkpointed_iteration.txt''
     = [None, None,
        Some ([], Inl (AssertionError
                        (Text ''error parsing metadata file out/ckpt/latest_checkpointed_iteration.txt''))),
        None]"
proof -
  have "read_metadata_all
       [example_rank 0 ''5'', example_rank 1 ''5'', example_rank 2 ''0'', example_rank 3 ''5'']
       ''out/ckpt/latest_checkpointed_iteration.txt''
     = [None, None,
        Some ([], Inl (AssertionError
                        (Text ''error parsing metadata file out/ckpt/latest_checkpointed_iteration.txt''))),
        None]"
    by code_simp
  then show ?thesis
    by (simp add: example_rank_def)
qed

section \<open>What a save writes\<close>

lemma unwrap_model_id [simp]: "unwrap_model model = model"
proof (cases model)
  case (Single m)
  then show ?thesis by (simp add: unwrap_model_def)
next
  case (Module_list ms)
  have "fold (\<lambda>x acc. acc @ [x]) ms acc = acc @ ms" for acc :: "component list"
    by (induction ms arbitrary: acc) simp_all
  with Module_list show ?thesis by (simp add: unwrap_model_def)
qed

lemma tracker_name_flat:
  "get_checkpoint_tracker_filename base = dir_prefix base @ ''latest_checkpointed_iteration.txt''"
  by (simp add: get_checkpoint_tracker_filename_def os_path_join.simps dir_prefix_def)

lemma suffix_differs:
  "x @ ''.pt'' \<noteq> y @ ''txt''"
proof
  assume "x @ ''.pt'' = y @ ''txt''"
  then have "''.pt'' = ''txt''" by (subst (asm) append_eq_append_conv) simp_all
  then show False by simp
qed

lemma checkpoint_name_not_tracker:
  "get_checkpoint_name mpu base it rel False \<noteq> get_checkpoint_tracker_filename base'"
proof -
  have "\<exists>x. get_checkpoint_name mpu base it rel False = x @ ''.pt''"
  proof (cases "get_pipe_parallel_world_size mpu = 1")
    case True
    show ?thesis by (subst name_flat_pp1[OF True]) (rule exI[where x="_ @ ''/model_optim_rng''"], simp)
  next
    case False
    show ?thesis by (subst name_flat_pp[OF False]) (rule exI[where x="_ @ ''/model_optim_rng''"], simp)
  qed
  moreover have "get_checkpoint_tracker_filename base' = (dir_prefix base' @ ''latest_checkpointed_iteration.'') @ ''txt''"
    by (simp add: tracker_name_flat)
  ultimately show ?thesis using suffix_differs by metis
qed


lemma ensure_directory_exists_files:
  "snd (ensure_directory_exists p name) = Inr q \<Longrightarrow> files q = files p"
  by (auto simp: ensure_directory_exists_def os_makedirs_def Let_def split: if_splits)


text \<open>What a successful save leaves on the rank that writes the blob.\<close>

lemma save_checkpoint_writes:
  assumes "snd (save_checkpoint mpu p N model optimizer lr_scheduler args epoch) = Inr p'"
      and "\<not> is_initialized mpu \<or> get_data_parallel_rank mpu = 0"
  shows "\<exists>m q. model = Single m
           \<and> snd (ensure_directory_exists p
                    (get_checkpoint_name mpu (output_dir args @ ''/ckpt'') N False False)) = Inr q
           \<and> p' = (let written =
                        torch_save q
                          (saved_state_dict p N (state_dict m) optimizer lr_scheduler args epoch)
                          (get_checkpoint_name mpu (output_dir args @ ''/ckpt'') N False False)
                   in if \<not> is_initialized mpu \<or> get_rank mpu = 0 then
                        written\<lparr>files := (files written)
                          (get_checkpoint_tracker_filename (output_dir args @ ''/ckpt'')
                             \<mapsto> Text_file (str_int N))\<rparr>
                      else written)"
proof -
  from assms obtain m where m: "model = Single m"
    unfolding save_checkpoint_def Let_def
    by (cases model) (auto simp: snd_andthen_Inr model_state_dict_def)
  from assms show ?thesis
    unfolding save_checkpoint_def saved_state_dict_def Let_def m
    by (auto simp: snd_andthen_Inr model_state_dict_def)
qed

lemma saved_state_dict_keys:
  "saved_state_dict p N ms optimizer lr_scheduler args epoch ''args'' = Some (PArgs args)"
  "saved_state_dict p N ms optimizer lr_scheduler args epoch ''checkpoint_version'' = Some (PFloat 3)"
  "saved_state_dict p N ms optimizer lr_scheduler args epoch ''iteration'' = Some (PInt N)"
  "saved_state_dict p N ms optimizer lr_scheduler args epoch ''model'' = Some ms"
  "saved_state_dict p N ms optimizer lr_scheduler args epoch ''epoch'' = Some epoch"
  by (simp_all add: saved_state_dict_def Let_def split: option.splits)

lemma saved_state_dict_no_optim:
  "no_save_optim args \<Longrightarrow>
   saved_state_dict p N ms optimizer lr_scheduler args epoch ''optimizer'' = None
   \<and> saved_state_dict p N ms optimizer lr_scheduler args epoch ''lr_scheduler'' = None"
  by (simp add: saved_state_dict_def Let_def)

lemma save_checkpoint_blob:
  assumes "snd (save_checkpoint mpu p N model optimizer lr_scheduler args epoch) = Inr p'"
      and "\<not> is_initialized mpu \<or> get_data_parallel_rank mpu = 0"
  shows "\<exists>m. model = Single m
           \<and> files p' (get_checkpoint_name mpu (output_dir args @ ''/ckpt'') N False False)
               = Some (Pickle (saved_state_dict p N (state_dict m) optimizer lr_scheduler args epoch))"
proof -
  from save_checkpoint_writes[OF assms] obtain m q where
    "model = Single m"
    "p' = (let written =
                        torch_save q
                          (saved_state_dict p N (state_dict m) optimizer lr_scheduler args epoch)
                          (get_checkpoint_name mpu (output_dir args @ ''/ckpt'') N False False)
                   in if \<not> is_initialized mpu \<or> get_rank mpu = 0 then
                        written\<lparr>files := (files written)
                          (get_checkpoint_tracker_filename (output_dir args @ ''/ckpt'')
                             \<mapsto> Text_file (str_int N))\<rparr>
                      else written)"
    by blast
  then show ?thesis
    by (simp add: Let_def torch_save_def checkpoint_name_not_tracker)
qed

section \<open>The steps of a load\<close>

lemma andthen_print_rank_0:
  "andthen (print_rank_0 m) f = (Print_rank_0 m # fst (f ()), snd (f ()))"
  by (simp add: andthen_def print_rank_0_def split: prod.splits)

lemma andthen_print:
  "andthen (print m) f = (Print m # fst (f ()), snd (f ()))"
  by (simp add: andthen_def print_def split: prod.splits)

lemma andthen_pair_Inr:
  "andthen (out, Inr x) f = (out @ fst (f x), snd (f x))"
  by (simp add: andthen_def split: prod.splits)

lemma andthen_pair_Inl:
  "andthen (out, Inl e) f = (out, Inl e)"
  by (simp add: andthen_def)

lemma fst_ret [simp]: "fst (ret x) = []"
  by (simp add: ret_def)

lemma fst_raise [simp]: "fst (raise e) = []"
  by (simp add: raise_def)

lemma except_KeyError_raise [simp]: "except_KeyError (raise (KeyError k)) handler = handler"
  by (simp add: except_KeyError_def raise_def split: prod.splits)

lemma except_KeyError_ret [simp]: "except_KeyError (ret x) handler = ret x"
  by (simp add: except_KeyError_def ret_def)

lemma sys_exit_run [simp]: "fst (sys_exit u) = []" "snd (sys_exit u) = Inl SystemExit"
  by (simp_all add: sys_exit_def)

lemma load_optimizer_missing:
  assumes "\<not> release" "\<not> finetune args" "\<not> no_load_optim args"
      and "sd ''optimizer'' = None"
  shows "load_optimizer args release sd name (Some opt) lr_scheduler =
           ([Print_rank_0 (Text (''Unable to load optimizer from checkpoint '' @ name
              @ ''. Specify --no-load-optim or --finetune to prevent attempting to load the optimizer state, exiting ...''))],
            Inl SystemExit)"
  using assms
  by (simp add: load_optimizer_def getitem_def andthen_print_rank_0)

lemma load_args_quiet: "sd ''args'' \<noteq> None \<Longrightarrow> fst (load_args args sd) = []"
  by (auto simp: load_args_def check_checkpoint_args_def Let_def)

lemma load_args_succeeds: "\<exists>a. snd (load_args args sd) = Inr a"
  by (cases "sd ''args''")
     (simp_all add: load_args_def check_checkpoint_args_def Let_def andthen_print_rank_0)

lemma set_checkpoint_version_ok:
  assumes "CHECKPOINT_VERSION p = PNone \<or> py_eq (CHECKPOINT_VERSION p) v"
  shows "set_checkpoint_version p v = ret (p\<lparr>CHECKPOINT_VERSION := v\<rparr>)"
  using assms by (auto simp: set_checkpoint_version_def)

lemma load_iteration_found:
  assumes "\<not> finetune args" "\<not> release"
      and "sd ''iteration'' \<noteq> None \<or> sd ''total_iters'' \<noteq> None"
  shows "load_iteration args release sd name =
           ret (case sd ''iteration'' of Some i \<Rightarrow> i | None \<Rightarrow> the (sd ''total_iters''))"
  using assms by (auto simp: load_iteration_def split: option.splits)

lemma model_load_accepted:
  "accepts m v strict \<Longrightarrow>
   model_load_state_dict (Single m) v strict = ret (Single (m\<lparr>state_dict := v\<rparr>))"
  by (simp add: model_load_state_dict_def load_state_dict_def)

lemma load_args_run: "\<exists>a. load_args args sd = (fst (load_args args sd), Inr a)"
  using load_args_succeeds[of args sd] by (metis prod.collapse)

lemma load_args_flags:
  assumes "snd (load_args args sd) = Inr a"
  shows "finetune a = finetune args \<and> no_load_optim a = no_load_optim args
       \<and> no_load_rng a = no_load_rng args
       \<and> resume_from_checkpoint a = resume_from_checkpoint args"
  using assms
  by (auto simp: load_args_def check_checkpoint_args_def Let_def andthen_print_rank_0
           split: option.splits)

text \<open>
  A load whose steps up to the model succeed: what remains are the optimizer step, the
  generator step and the return.
\<close>

lemma load_checkpoint_prefix:
  assumes "os_path_isfile p (get_checkpoint_tracker_filename (resume_from_checkpoint args))"
      and "read_metadata mpu peers p (get_checkpoint_tracker_filename (resume_from_checkpoint args))
             = (out, Inr (iteration, release))"
      and "torch_load p (get_checkpoint_name mpu (resume_from_checkpoint args) iteration release False)
             = Some sd"
      and "set_checkpoint_version p
             (case sd ''checkpoint_version'' of Some v \<Rightarrow> v | None \<Rightarrow> PInt 0) = ret p1"
      and "sd ''epoch'' = Some e"
      and "load_iteration args release sd
             (get_checkpoint_name mpu (resume_from_checkpoint args) iteration release False) = ret i"
      and "load_args args sd = (l, Inr a)"
      and "sd ''model'' = Some v"
      and "model_load_state_dict model v strict = ret model'"
  shows "load_checkpoint mpu peers p model optimizer lr_scheduler args strict =
     andthen
       (out @ [Print_rank_0 (Text ('' loading checkpoint from '' @ resume_from_checkpoint args
                                    @ '' at iteration '' @ str_int iteration)),
               Print (Text (get_checkpoint_name mpu (resume_from_checkpoint args) iteration release False))]
            @ l @ [Print_rank_0 (Formatted '' checkpoint version {}'' [get_checkpoint_version p1])],
        Inr ())
       (\<lambda>_.
     andthen (load_optimizer a release sd
                (get_checkpoint_name mpu (resume_from_checkpoint args) iteration release False)
                optimizer lr_scheduler)
       (\<lambda>(optimizer, lr_scheduler).
     andthen (load_rng a release sd
                (get_checkpoint_name mpu (resume_from_checkpoint args) iteration release False) p1)
       (\<lambda>p.
     andthen
       (print_rank_0
          (Formatted ''  successfully loaded checkpoint from {} at iteration {}''
             [PStr (resume_from_checkpoint a), i]))
       (\<lambda>_.
     ret \<lparr>returned = PTuple [i, e], process_after = p, model_after = model',
          optimizer_after = optimizer, lr_scheduler_after = lr_scheduler,
          args_after = a\<rparr>))))"
  using assms(1)
  by (simp add: load_checkpoint_def Let_def assms(2-9) andthen_pair_Inr andthen_print_rank_0
        andthen_print getitem_def)

lemma load_checkpoint_optimizer_missing_fails:
  assumes "os_path_isfile p (get_checkpoint_tracker_filename (resume_from_checkpoint args))"
      and "read_metadata mpu peers p (get_checkpoint_tracker_filename (resume_from_checkpoint args))
             = (out, Inr (iteration, False))"
      and "torch_load p (get_checkpoint_name mpu (resume_from_checkpoint args) iteration False False)
             = Some sd"
      and "sd ''optimizer'' = None"
      and "\<not> finetune args" "\<not> no_load_optim args"
  shows "isl (snd (load_checkpoint mpu peers p model (Some opt) lr_scheduler args strict))"
proof (rule ccontr)
  assume "\<not> isl (snd (load_checkpoint mpu peers p model (Some opt) lr_scheduler args strict))"
  then obtain r where
    "snd (load_checkpoint mpu peers p model (Some opt) lr_scheduler args strict) = Inr r"
    by (cases "snd (load_checkpoint mpu peers p model (Some opt) lr_scheduler args strict)") auto
  then show False
    using assms
    by (auto simp: load_checkpoint_def Let_def snd_andthen_Inr load_optimizer_missing
             dest!: load_args_flags)
qed

lemma load_checkpoint_optimizer_missing_message:
  assumes "os_path_isfile p (get_checkpoint_tracker_filename (resume_from_checkpoint args))"
      and "read_metadata mpu peers p (get_checkpoint_tracker_filename (resume_from_checkpoint args))
             = (out, Inr (iteration, False))"
      and "torch_load p (get_checkpoint_name mpu (resume_from_checkpoint args) iteration False False)
             = Some sd"
      and "sd ''optimizer'' = None"
      and "\<not> finetune args" "\<not> no_load_optim args"
      and "CHECKPOINT_VERSION p = PNone
           \<or> py_eq (CHECKPOINT_VERSION p)
                (case sd ''checkpoint_version'' of Some v \<Rightarrow> v | None \<Rightarrow> PInt 0)"
      and "sd ''epoch'' \<noteq> None"
      and "sd ''iteration'' \<noteq> None \<or> sd ''total_iters'' \<noteq> None"
      and "sd ''model'' = Some v" "accepts m v strict"
  shows "snd (load_checkpoint mpu peers p (Single m) (Some opt) lr_scheduler args strict)
           = Inl SystemExit
       \<and> last (fst (load_checkpoint mpu peers p (Single m) (Some opt) lr_scheduler args strict))
           = Print_rank_0 (Text (''Unable to load optimizer from checkpoint ''
               @ get_checkpoint_name mpu (resume_from_checkpoint args) iteration False False
               @ ''. Specify --no-load-optim or --finetune to prevent attempting to load the optimizer state, exiting ...''))"
proof -
  obtain e where e: "sd ''epoch'' = Some e" using assms(8) by auto
  obtain a where a: "load_args args sd = (fst (load_args args sd), Inr a)"
    using load_args_run by blast
  then have "snd (load_args args sd) = Inr a"
    by (metis snd_conv)
  from load_args_flags[OF this] assms(5,6)
  have fa: "\<not> finetune a" "\<not> no_load_optim a" by simp_all
  have not_release: "\<not> False" by simp
  note prefix = load_checkpoint_prefix[OF assms(1-3) set_checkpoint_version_ok[OF assms(7)] e
      load_iteration_found[OF assms(5) not_release assms(9)] a assms(10)
      model_load_accepted[OF assms(11)]]
  have missing: "load_optimizer a False sd name (Some opt) lr_scheduler =
           ([Print_rank_0 (Text (''Unable to load optimizer from checkpoint '' @ name
              @ ''. Specify --no-load-optim or --finetune to prevent attempting to load the optimizer state, exiting ...''))],
            Inl SystemExit)" for name
    using fa assms(4) by (intro load_optimizer_missing) simp_all
  show ?thesis
    by (simp add: prefix missing andthen_pair_Inr andthen_pair_Inl)
qed

section \<open>Saved blobs and the optimizer option\<close>

text \<open>
  Claim C9. Whenever \<^verbatim>\<open>save_checkpoint\<close> writes a blob (on a rank that writes, when the save
  succeeds), the blob holds the run configuration under \<^verbatim>\<open>args\<close>, the version 3.0 under
  \<^verbatim>\<open>checkpoint_version\<close>, and the iteration, the model state and the epoch under their keys,
  whatever \<^verbatim>\<open>no_save_optim\<close> and \<^verbatim>\<open>no_save_rng\<close> are. So the step of \<^verbatim>\<open>load_checkpoint\<close> that
  checks the stored configuration prints nothing on such a blob: its message "could not
  find arguments" needs a blob of another writer.
\<close>

theorem saved_blob_always_has_configuration:
  assumes "snd (save_checkpoint mpu p N model optimizer lr_scheduler args epoch) = Inr p'"
      and "\<not> is_initialized mpu \<or> get_data_parallel_rank mpu = 0"
  shows "\<exists>m sd. model = Single m
           \<and> files p' (get_checkpoint_name mpu (output_dir args @ ''/ckpt'') N False False)
               = Some (Pickle sd)
           \<and> sd ''args'' = Some (PArgs args)
           \<and> sd ''checkpoint_version'' = Some (PFloat 3)
           \<and> sd ''iteration'' = Some (PInt N)
           \<and> sd ''model'' = Some (state_dict m)
           \<and> sd ''epoch'' = Some epoch
           \<and> (\<forall>args'. fst (load_args args' sd) = [])"
proof -
  from save_checkpoint_blob[OF assms] obtain m where
    m: "model = Single m"
    and f: "files p' (get_checkpoint_name mpu (output_dir args @ ''/ckpt'') N False False)
               = Some (Pickle (saved_state_dict p N (state_dict m) optimizer lr_scheduler args epoch))"
    by blast
  let ?sd = "saved_state_dict p N (state_dict m) optimizer lr_scheduler args epoch"
  have "fst (load_args args' ?sd) = []" for args'
    by (rule load_args_quiet) (simp add: saved_state_dict_keys)
  with m f show ?thesis
    by (intro exI[where x=m] exI[where x="?sd"]) (simp add: saved_state_dict_keys)
qed

theorem saved_blob_always_has_configuration_witness:
  "\<not> isl (snd (example_save 100 (example_args\<lparr>no_save_optim := True, no_save_rng := True\<rparr>)))
   \<and> (\<exists>sd. files (projr (snd (example_save 100 (example_args\<lparr>no_save_optim := True, no_save_rng := True\<rparr>))))
              ''out/ckpt/iter_0000100/mp_rank_00/model_optim_rng.pt'' = Some (Pickle sd)
           \<and> sd ''args'' = Some (PArgs (example_args\<lparr>no_save_optim := True, no_save_rng := True\<rparr>))
           \<and> sd ''checkpoint_version'' = Some (PFloat 3)
           \<and> sd ''iteration'' = Some (PInt 100)
           \<and> sd ''model'' = Some (state_dict example_model)
           \<and> sd ''epoch'' = Some (PInt 2))"
proof -
  let ?a = "example_args\<lparr>no_save_optim := True, no_save_rng := True\<rparr>"
  have ok: "\<not> isl (snd (example_save 100 ?a))"
    by code_simp
  then have saved: "snd (save_checkpoint example_mpu example_process 100 (Single example_model)
                      (Some example_optimizer) None ?a (PInt 2))
                    = Inr (projr (snd (example_save 100 ?a)))"
    by (simp add: example_save_def)
  have writer: "\<not> is_initialized example_mpu \<or> get_data_parallel_rank example_mpu = 0"
    by (simp add: example_mpu_def)
  have name: "get_checkpoint_name example_mpu (output_dir ?a @ ''/ckpt'') 100 False False
                = ''out/ckpt/iter_0000100/mp_rank_00/model_optim_rng.pt''"
    by code_simp
  from saved_blob_always_has_configuration[OF saved writer] ok show ?thesis
    by (simp only: name) auto
qed

text \<open>
  Claim C7. First part: a save with \<^verbatim>\<open>no_save_optim\<close> set writes a blob without the key
  \<^verbatim>\<open>optimizer\<close>. Second part: let the tracker name a checkpoint that is not a release and
  whose blob has no key \<^verbatim>\<open>optimizer\<close>, and let an optimizer be given with \<^verbatim>\<open>finetune\<close> and
  \<^verbatim>\<open>no_load_optim\<close> false. Then \<^verbatim>\<open>load_checkpoint\<close> never returns normally; and when the
  steps before the optimizer pass (the version is compatible, the blob has an epoch, an
  iteration and a model state that the model takes), it ends by \<^verbatim>\<open>sys.exit()\<close> right after
  handing the message that names \<^verbatim>\<open>--no-load-optim\<close> and \<^verbatim>\<open>--finetune\<close> to the logging sink.
\<close>

theorem skip_optimizer_asymmetry:
  "(no_save_optim args0
      \<and> (\<not> is_initialized mpu0 \<or> get_data_parallel_rank mpu0 = 0)
      \<and> snd (save_checkpoint mpu0 p0 N model0 optimizer0 lr_scheduler0 args0 epoch0) = Inr p0'
    \<longrightarrow> (\<exists>sd0. files p0' (get_checkpoint_name mpu0 (output_dir args0 @ ''/ckpt'') N False False)
                  = Some (Pickle sd0)
               \<and> sd0 ''optimizer'' = None))
   \<and> (os_path_isfile p (get_checkpoint_tracker_filename (resume_from_checkpoint args))
      \<and> read_metadata mpu peers p (get_checkpoint_tracker_filename (resume_from_checkpoint args))
           = (out, Inr (iteration, False))
      \<and> torch_load p (get_checkpoint_name mpu (resume_from_checkpoint args) iteration False False)
           = Some sd
      \<and> sd ''optimizer'' = None
      \<and> \<not> finetune args \<and> \<not> no_load_optim args
    \<longrightarrow> isl (snd (load_checkpoint mpu peers p model (Some opt) lr_scheduler args strict))
        \<and> ((CHECKPOINT_VERSION p = PNone
              \<or> py_eq (CHECKPOINT_VERSION p)
                   (case sd ''checkpoint_version'' of Some v \<Rightarrow> v | None \<Rightarrow> PInt 0))
            \<and> sd ''epoch'' \<noteq> None
            \<and> (sd ''iteration'' \<noteq> None \<or> sd ''total_iters'' \<noteq> None)
            \<and> model = Single m \<and> sd ''model'' = Some v \<and> accepts m v strict
          \<longrightarrow> snd (load_checkpoint mpu peers p model (Some opt) lr_scheduler args strict)
                = Inl SystemExit
              \<and> last (fst (load_checkpoint mpu peers p model (Some opt) lr_scheduler args strict))
                = Print_rank_0 (Text (''Unable to load optimizer from checkpoint ''
                    @ get_checkpoint_name mpu (resume_from_checkpoint args) iteration False False
                    @ ''. Specify --no-load-optim or --finetune to prevent attempting to load the optimizer state, exiting ...''))))"
proof (intro conjI impI; (elim conjE)?)
  assume "no_save_optim args0"
    and "\<not> is_initialized mpu0 \<or> get_data_parallel_rank mpu0 = 0"
    and "snd (save_checkpoint mpu0 p0 N model0 optimizer0 lr_scheduler0 args0 epoch0) = Inr p0'"
  from save_checkpoint_blob[OF this(3,2)] saved_state_dict_no_optim[OF this(1)]
  show "\<exists>sd0. files p0' (get_checkpoint_name mpu0 (output_dir args0 @ ''/ckpt'') N False False)
                  = Some (Pickle sd0)
               \<and> sd0 ''optimizer'' = None"
    by blast
next
  assume "os_path_isfile p (get_checkpoint_tracker_filename (resume_from_checkpoint args))"
    and "read_metadata mpu peers p (get_checkpoint_tracker_filename (resume_from_checkpoint args))
           = (out, Inr (iteration, False))"
    and "torch_load p (get_checkpoint_name mpu (resume_from_checkpoint args) iteration False False)
           = Some sd"
    and "sd ''optimizer'' = None" "\<not> finetune args" "\<not> no_load_optim args"
  then show "isl (snd (load_checkpoint mpu peers p model (Some opt) lr_scheduler args strict))"
    by (rule load_checkpoint_optimizer_missing_fails)
next
  assume "os_path_isfile p (get_checkpoint_tracker_filename (resume_from_checkpoint args))"
    and "read_metadata mpu peers p (get_checkpoint_tracker_filename (resume_from_checkpoint args))
           = (out, Inr (iteration, False))"
    and "torch_load p (get_checkpoint_name mpu (resume_from_checkpoint args) iteration False False)
           = Some sd"
    and "sd ''optimizer'' = None" "\<not> finetune args" "\<not> no_load_optim args"
    and "CHECKPOINT_VERSION p = PNone
              \<or> py_eq (CHECKPOINT_VERSION p)
                   (case sd ''checkpoint_version'' of Some v \<Rightarrow> v | None \<Rightarrow> PInt 0)"
    and "sd ''epoch'' \<noteq> None"
    and "sd ''iteration'' \<noteq> None \<or> sd ''total_iters'' \<noteq> None"
    and "model = Single m" "sd ''model'' = Some v" "accepts m v strict"
  from load_checkpoint_optimizer_missing_message[OF this(1-9) this(11,12)] this(10)
  show "snd (load_checkpoint mpu peers p model (Some opt) lr_scheduler args strict)
                = Inl SystemExit" by simp
next
  assume "os_path_isfile p (get_checkpoint_tracker_filename (resume_from_checkpoint args))"
    and "read_metadata mpu peers p (get_checkpoint_tracker_filename (resume_from_checkpoint args))
           = (out, Inr (iteration, False))"
    and "torch_load p (get_checkpoint_name mpu (resume_from_checkpoint args) iteration False False)
           = Some sd"
    and "sd ''optimizer'' = None" "\<not> finetune args" "\<not> no_load_optim args"
    and "CHECKPOINT_VERSION p = PNone
              \<or> py_eq (CHECKPOINT_VERSION p)
                   (case sd ''checkpoint_version'' of Some v \<Rightarrow> v | None \<Rightarrow> PInt 0)"
    and "sd ''epoch'' \<noteq> None"
    and "sd ''iteration'' \<noteq> None \<or> sd ''total_iters'' \<noteq> None"
    and "model = Single m" "sd ''model'' = Some v" "accepts m v strict"
  from load_checkpoint_optimizer_missing_message[OF this(1-9) this(11,12)] this(10)
  show "last (fst (load_checkpoint mpu peers p model (Some opt) lr_scheduler args strict))
                = Print_rank_0 (Text (''Unable to load optimizer from checkpoint ''
                    @ get_checkpoint_name mpu (resume_from_checkpoint args) iteration False False
                    @ ''. Specify --no-load-optim or --finetune to prevent attempting to load the optimizer state, exiting ...''))"
    by simp
qed


theorem skip_optimizer_asymmetry_witness:
  "\<not> isl (snd (example_save 100 (example_args\<lparr>no_save_optim := True\<rparr>)))
   \<and> snd (load_checkpoint example_mpu []
              (projr (snd (example_save 100 (example_args\<lparr>no_save_optim := True\<rparr>))))
              (Single example_model) (Some example_optimizer) None example_args True)
       = Inl SystemExit
   \<and> last (fst (load_checkpoint example_mpu []
              (projr (snd (example_save 100 (example_args\<lparr>no_save_optim := True\<rparr>))))
              (Single example_model) (Some example_optimizer) None example_args True))
       = Print_rank_0 (Text ''Unable to load optimizer from checkpoint out/ckpt/iter_0000100/mp_rank_00/model_optim_rng.pt. Specify --no-load-optim or --finetune to prevent attempting to load the optimizer state, exiting ...'')"
proof -
  let ?a0 = "example_args\<lparr>no_save_optim := True\<rparr>"
  let ?P = "projr (snd (example_save 100 ?a0))"
  let ?sd = "saved_state_dict example_process 100 (state_dict example_model)
               (Some example_optimizer) None ?a0 (PInt 2)"
  have ok: "\<not> isl (snd (example_save 100 ?a0))"
    by code_simp
  then have saved: "snd (save_checkpoint example_mpu example_process 100 (Single example_model)
                      (Some example_optimizer) None ?a0 (PInt 2)) = Inr ?P"
    by (simp add: example_save_def)
  have writer: "\<not> is_initialized example_mpu \<or> get_data_parallel_rank example_mpu = 0"
    by (simp add: example_mpu_def)
  have dir: "resume_from_checkpoint example_args = ''out/ckpt''" "output_dir example_args = ''out''"
    by (simp_all add: example_args_def)
  have tracker: "get_checkpoint_tracker_filename ''out/ckpt'' = ''out/ckpt/latest_checkpointed_iteration.txt''"
    by code_simp
  have name: "get_checkpoint_name example_mpu ''out/ckpt'' 100 False False
                = ''out/ckpt/iter_0000100/mp_rank_00/model_optim_rng.pt''"
    by code_simp
  have isfile: "os_path_isfile ?P ''out/ckpt/latest_checkpointed_iteration.txt''"
    by code_simp
  have rm: "read_metadata example_mpu [] ?P ''out/ckpt/latest_checkpointed_iteration.txt''
              = ([], Inr (100, False))"
    by code_simp
  have blob: "torch_load ?P ''out/ckpt/iter_0000100/mp_rank_00/model_optim_rng.pt'' = Some ?sd"
    using save_checkpoint_blob[OF saved writer] by (simp add: dir name torch_load_def)
  have version: "CHECKPOINT_VERSION ?P = PNone"
    by code_simp
  have flags: "no_save_optim ?a0" "\<not> finetune example_args" "\<not> no_load_optim example_args"
    by (simp_all add: example_args_def)
  have accepted: "accepts example_model (state_dict example_model) True"
    by (simp add: example_model_def)
  show ?thesis
    using skip_optimizer_asymmetry[of ?a0 example_mpu example_process 100 "Single example_model"
            "Some example_optimizer" None "PInt 2" ?P ?P example_args example_mpu "[]" "[]" 100
            ?sd "Single example_model" example_optimizer None True example_model
            "state_dict example_model"]
          ok isfile rm blob version flags accepted saved_state_dict_no_optim[OF flags(1)]
    by (simp add: dir tracker name saved_state_dict_keys)
qed

section \<open>Restoring the random number generators\<close>

lemma load_optimizer_cong:
  "finetune a = finetune args \<Longrightarrow> no_load_optim a = no_load_optim args \<Longrightarrow>
   load_optimizer a release sd name optimizer lr_scheduler
     = load_optimizer args release sd name optimizer lr_scheduler"
  by (simp add: load_optimizer_def)

lemma load_rng_cong:
  "finetune a = finetune args \<Longrightarrow> no_load_rng a = no_load_rng args \<Longrightarrow>
   load_rng a release sd name p = load_rng args release sd name p"
  by (simp add: load_rng_def)

lemma py_truthy_empty_dict [simp]: "\<not> py_truthy (PDict [])"
  by (simp add: py_truthy_def)

lemmas rng_setters =
  random_setstate_def np_random_set_state_def torch_set_rng_state_def
  torch_cuda_set_rng_state_def tracker_set_states_def

text \<open>The step when a key is missing or the tracker states are empty: it ends the run.\<close>

lemma load_rng_fatal:
  assumes "\<not> release" "\<not> finetune args" "\<not> no_load_rng args"
      and "sd ''random_rng_state'' = None \<or> sd ''np_rng_state'' = None
           \<or> sd ''torch_rng_state'' = None \<or> sd ''cuda_rng_state'' = None
           \<or> sd ''rng_tracker_states'' = None \<or> sd ''rng_tracker_states'' = Some (PDict [])"
  shows "snd (load_rng args release sd name p) = Inl SystemExit
       \<and> fst (load_rng args release sd name p) \<noteq> []
       \<and> last (fst (load_rng args release sd name p))
           = Print_rank_0 (Text (''Unable to load rng state from checkpoint '' @ name
              @ ''. Specify --no-load-rng or --finetune to prevent attempting to load the rng state, exiting ...''))"
  using assms
  by (cases "sd ''random_rng_state''"; cases "sd ''np_rng_state''";
      cases "sd ''torch_rng_state''"; cases "sd ''cuda_rng_state''";
      cases "sd ''rng_tracker_states''")
     (auto simp: load_rng_def getitem_def rng_setters andthen_pair_Inr andthen_print_rank_0
                 except_KeyError_def raise_def andthen_pair_Inl)

text \<open>
  The step when the four scalar states are there and the tracker states are missing or
  empty: the four generators are set, then the run ends.
\<close>

lemma load_rng_sets_four:
  assumes "\<not> release" "\<not> finetune args" "\<not> no_load_rng args"
      and "sd ''random_rng_state'' = Some v1" "sd ''np_rng_state'' = Some v2"
          "sd ''torch_rng_state'' = Some v3" "sd ''cuda_rng_state'' = Some v4"
      and "sd ''rng_tracker_states'' = None \<or> sd ''rng_tracker_states'' = Some (PDict [])"
  shows "load_rng args release sd name p =
           ([Random_setstate v1, Np_random_set_state v2, Torch_set_rng_state v3,
             Torch_cuda_set_rng_state v4,
             Print_rank_0 (Text (''Unable to load rng state from checkpoint '' @ name
              @ ''. Specify --no-load-rng or --finetune to prevent attempting to load the rng state, exiting ...''))],
            Inl SystemExit)"
  using assms
  by (auto simp: load_rng_def getitem_def rng_setters andthen_pair_Inr andthen_print_rank_0
                 except_KeyError_def raise_def andthen_pair_Inl)

lemma load_rng_empty_like_missing:
  assumes "\<not> release" "\<not> finetune args" "\<not> no_load_rng args"
      and "sd ''rng_tracker_states'' = Some (PDict [])"
  shows "load_rng args release sd name p
           = load_rng args release (sd(''rng_tracker_states'' := None)) name p"
  using assms
  by (cases "sd ''random_rng_state''"; cases "sd ''np_rng_state''";
      cases "sd ''torch_rng_state''"; cases "sd ''cuda_rng_state''")
     (auto simp: load_rng_def getitem_def rng_setters andthen_pair_Inr andthen_print_rank_0
                 except_KeyError_def raise_def andthen_pair_Inl)

lemma load_rng_sets_five:
  assumes "\<not> release" "\<not> finetune args" "\<not> no_load_rng args"
      and "sd ''random_rng_state'' = Some v1" "sd ''np_rng_state'' = Some v2"
          "sd ''torch_rng_state'' = Some v3" "sd ''cuda_rng_state'' = Some v4"
          "sd ''rng_tracker_states'' = Some v5" "py_truthy v5"
  shows "load_rng args release sd name p =
           ([Random_setstate v1, Np_random_set_state v2, Torch_set_rng_state v3,
             Torch_cuda_set_rng_state v4, Tracker_set_states v5],
            Inr (p\<lparr>random_rng_state := v1, np_rng_state := v2, torch_rng_state := v3,
                   cuda_rng_state := v4, rng_tracker_states := v5\<rparr>))"
  using assms
  by (simp add: load_rng_def getitem_def rng_setters andthen_pair_Inr except_KeyError_def)

lemma load_rng_restores_all:
  assumes "\<not> release" "\<not> finetune args" "\<not> no_load_rng args"
      and "snd (load_rng args release sd name p) = Inr p'"
  shows "sd ''random_rng_state'' = Some (random_rng_state p')
       \<and> sd ''np_rng_state'' = Some (np_rng_state p')
       \<and> sd ''torch_rng_state'' = Some (torch_rng_state p')
       \<and> sd ''cuda_rng_state'' = Some (cuda_rng_state p')
       \<and> sd ''rng_tracker_states'' = Some (rng_tracker_states p')
       \<and> py_truthy (rng_tracker_states p')"
proof -
  have bad: False
    if "sd ''random_rng_state'' = None \<or> sd ''np_rng_state'' = None
           \<or> sd ''torch_rng_state'' = None \<or> sd ''cuda_rng_state'' = None
           \<or> sd ''rng_tracker_states'' = None"
    using load_rng_fatal[OF assms(1-3), of sd name p] that assms(4) by auto
  then obtain v1 v2 v3 v4 v5 where v:
    "sd ''random_rng_state'' = Some v1" "sd ''np_rng_state'' = Some v2"
    "sd ''torch_rng_state'' = Some v3" "sd ''cuda_rng_state'' = Some v4"
    "sd ''rng_tracker_states'' = Some v5"
    by (cases "sd ''random_rng_state''"; cases "sd ''np_rng_state''";
        cases "sd ''torch_rng_state''"; cases "sd ''cuda_rng_state''";
        cases "sd ''rng_tracker_states''") auto
  show ?thesis
  proof (cases "py_truthy v5")
    case True
    from load_rng_sets_five[OF assms(1-3) v True, of name p] assms(4) v True
    show ?thesis by auto
  next
    case False
    with assms v have False
      by (simp add: load_rng_def getitem_def rng_setters andthen_pair_Inr andthen_print_rank_0
            except_KeyError_def raise_def andthen_pair_Inl)
    then show ?thesis ..
  qed
qed

lemma load_checkpoint_restores_rng:
  assumes "os_path_isfile p (get_checkpoint_tracker_filename (resume_from_checkpoint args))"
      and "read_metadata mpu peers p (get_checkpoint_tracker_filename (resume_from_checkpoint args))
             = (out, Inr (iteration, False))"
      and "torch_load p (get_checkpoint_name mpu (resume_from_checkpoint args) iteration False False)
             = Some sd"
      and "\<not> finetune args" "\<not> no_load_rng args"
      and "snd (load_checkpoint mpu peers p model optimizer lr_scheduler args strict) = Inr r"
  shows "sd ''random_rng_state'' = Some (random_rng_state (process_after r))
       \<and> sd ''np_rng_state'' = Some (np_rng_state (process_after r))
       \<and> sd ''torch_rng_state'' = Some (torch_rng_state (process_after r))
       \<and> sd ''cuda_rng_state'' = Some (cuda_rng_state (process_after r))
       \<and> sd ''rng_tracker_states'' = Some (rng_tracker_states (process_after r))
       \<and> rng_tracker_states (process_after r) \<noteq> PDict []"
proof -
  from assms(6,1) obtain a p1 where
    "snd (load_args args sd) = Inr a"
    "snd (load_rng a False sd
            (get_checkpoint_name mpu (resume_from_checkpoint args) iteration False False) p1)
       = Inr (process_after r)"
    by (auto simp: load_checkpoint_def Let_def snd_andthen_Inr assms(2,3))
  with load_args_flags[OF this(1)] have
    "finetune a = finetune args" "no_load_rng a = no_load_rng args"
    "snd (load_rng a False sd
            (get_checkpoint_name mpu (resume_from_checkpoint args) iteration False False) p1)
       = Inr (process_after r)"
    by simp_all
  with assms(4,5) have
    "sd ''random_rng_state'' = Some (random_rng_state (process_after r))
       \<and> sd ''np_rng_state'' = Some (np_rng_state (process_after r))
       \<and> sd ''torch_rng_state'' = Some (torch_rng_state (process_after r))
       \<and> sd ''cuda_rng_state'' = Some (cuda_rng_state (process_after r))
       \<and> sd ''rng_tracker_states'' = Some (rng_tracker_states (process_after r))
       \<and> py_truthy (rng_tracker_states (process_after r))"
    by (intro load_rng_restores_all[where release=False and args=a]) simp_all
  then show ?thesis by auto
qed

text \<open>
  A load that gets as far as the generator step and fails there: it ends with the error
  of that step, and its events end with the events of that step.
\<close>

lemma load_checkpoint_ends_in_rng_step:
  assumes "os_path_isfile p (get_checkpoint_tracker_filename (resume_from_checkpoint args))"
      and "read_metadata mpu peers p (get_checkpoint_tracker_filename (resume_from_checkpoint args))
             = (out, Inr (iteration, False))"
      and "torch_load p (get_checkpoint_name mpu (resume_from_checkpoint args) iteration False False)
             = Some sd"
      and "\<not> finetune args"
      and "CHECKPOINT_VERSION p = PNone
           \<or> py_eq (CHECKPOINT_VERSION p)
                (case sd ''checkpoint_version'' of Some v \<Rightarrow> v | None \<Rightarrow> PInt 0)"
      and "sd ''epoch'' \<noteq> None"
      and "sd ''iteration'' \<noteq> None \<or> sd ''total_iters'' \<noteq> None"
      and "sd ''model'' = Some v" "accepts m v strict"
      and "\<not> isl (snd (load_optimizer args False sd
              (get_checkpoint_name mpu (resume_from_checkpoint args) iteration False False)
              optimizer lr_scheduler))"
      and "load_rng args False sd
             (get_checkpoint_name mpu (resume_from_checkpoint args) iteration False False)
             (p\<lparr>CHECKPOINT_VERSION :=
                  (case sd ''checkpoint_version'' of Some v \<Rightarrow> v | None \<Rightarrow> PInt 0)\<rparr>)
           = (tr, Inl e)"
  shows "load_checkpoint mpu peers p (Single m) optimizer lr_scheduler args strict =
          (out @ [Print_rank_0 (Text ('' loading checkpoint from '' @ resume_from_checkpoint args
                                    @ '' at iteration '' @ str_int iteration)),
                  Print (Text (get_checkpoint_name mpu (resume_from_checkpoint args) iteration False False))]
             @ fst (load_args args sd)
             @ [Print_rank_0 (Formatted '' checkpoint version {}''
                  [case sd ''checkpoint_version'' of Some v \<Rightarrow> v | None \<Rightarrow> PInt 0])]
             @ fst (load_optimizer args False sd
                     (get_checkpoint_name mpu (resume_from_checkpoint args) iteration False False)
                     optimizer lr_scheduler)
             @ tr,
           Inl e)"
proof -
  let ?name = "get_checkpoint_name mpu (resume_from_checkpoint args) iteration False False"
  obtain ep where ep: "sd ''epoch'' = Some ep" using assms(6) by auto
  obtain a where a: "load_args args sd = (fst (load_args args sd), Inr a)"
    using load_args_run by blast
  then have "snd (load_args args sd) = Inr a"
    by (metis snd_conv)
  from load_args_flags[OF this]
  have fa: "finetune a = finetune args" "no_load_optim a = no_load_optim args"
     "no_load_rng a = no_load_rng args" by simp_all
  have not_release: "\<not> False" by simp
  note prefix = load_checkpoint_prefix[OF assms(1-3) set_checkpoint_version_ok[OF assms(5)] ep
      load_iteration_found[OF assms(4) not_release assms(7)] a assms(8)
      model_load_accepted[OF assms(9)]]
  obtain ol where "snd (load_optimizer args False sd ?name optimizer lr_scheduler) = Inr ol"
    using assms(10) by (cases "snd (load_optimizer args False sd ?name optimizer lr_scheduler)") auto
  then have opt: "load_optimizer a False sd ?name optimizer lr_scheduler
                    = (fst (load_optimizer args False sd ?name optimizer lr_scheduler), Inr ol)"
    by (simp add: load_optimizer_cong[OF fa(1,2)] prod_eq_iff)
  have rng: "load_rng a False sd ?name
               (p\<lparr>CHECKPOINT_VERSION :=
                    (case sd ''checkpoint_version'' of Some v \<Rightarrow> v | None \<Rightarrow> PInt 0)\<rparr>)
             = (tr, Inl e)"
    using assms(11) by (simp add: load_rng_cong[OF fa(1,3)])
  show ?thesis
    by (simp add: prefix opt rng andthen_pair_Inr andthen_pair_Inl get_checkpoint_version_def
             split: prod.splits)
qed

lemma load_checkpoint_rng_bad_message:
  assumes "os_path_isfile p (get_checkpoint_tracker_filename (resume_from_checkpoint args))"
      and "read_metadata mpu peers p (get_checkpoint_tracker_filename (resume_from_checkpoint args))
             = (out, Inr (iteration, False))"
      and "torch_load p (get_checkpoint_name mpu (resume_from_checkpoint args) iteration False False)
             = Some sd"
      and "\<not> finetune args" "\<not> no_load_rng args"
      and "sd ''random_rng_state'' = None \<or> sd ''np_rng_state'' = None
           \<or> sd ''torch_rng_state'' = None \<or> sd ''cuda_rng_state'' = None
           \<or> sd ''rng_tracker_states'' = None \<or> sd ''rng_tracker_states'' = Some (PDict [])"
      and "CHECKPOINT_VERSION p = PNone
           \<or> py_eq (CHECKPOINT_VERSION p)
                (case sd ''checkpoint_version'' of Some v \<Rightarrow> v | None \<Rightarrow> PInt 0)"
      and "sd ''epoch'' \<noteq> None"
      and "sd ''iteration'' \<noteq> None \<or> sd ''total_iters'' \<noteq> None"
      and "sd ''model'' = Some v" "accepts m v strict"
      and "\<not> isl (snd (load_optimizer args False sd
              (get_checkpoint_name mpu (resume_from_checkpoint args) iteration False False)
              optimizer lr_scheduler))"
  shows "snd (load_checkpoint mpu peers p (Single m) optimizer lr_scheduler args strict)
           = Inl SystemExit
       \<and> last (fst (load_checkpoint mpu peers p (Single m) optimizer lr_scheduler args strict))
           = Print_rank_0 (Text (''Unable to load rng state from checkpoint ''
               @ get_checkpoint_name mpu (resume_from_checkpoint args) iteration False False
               @ ''. Specify --no-load-rng or --finetune to prevent attempting to load the rng state, exiting ...''))"
proof -
  let ?name = "get_checkpoint_name mpu (resume_from_checkpoint args) iteration False False"
  let ?p1 = "p\<lparr>CHECKPOINT_VERSION :=
                  (case sd ''checkpoint_version'' of Some v \<Rightarrow> v | None \<Rightarrow> PInt 0)\<rparr>"
  have not_release: "\<not> False" by simp
  note fatal = load_rng_fatal[OF not_release assms(4,5,6), of ?name ?p1]
  then have run: "load_rng args False sd ?name ?p1
                    = (fst (load_rng args False sd ?name ?p1), Inl SystemExit)"
    by (simp add: prod_eq_iff)
  from load_checkpoint_ends_in_rng_step[OF assms(1-4) assms(7-12) run] fatal
  show ?thesis by auto
qed

lemma load_checkpoint_sets_four:
  assumes "os_path_isfile p (get_checkpoint_tracker_filename (resume_from_checkpoint args))"
      and "read_metadata mpu peers p (get_checkpoint_tracker_filename (resume_from_checkpoint args))
             = (out, Inr (iteration, False))"
      and "torch_load p (get_checkpoint_name mpu (resume_from_checkpoint args) iteration False False)
             = Some sd"
      and "\<not> finetune args" "\<not> no_load_rng args"
      and "sd ''random_rng_state'' = Some v1" "sd ''np_rng_state'' = Some v2"
          "sd ''torch_rng_state'' = Some v3" "sd ''cuda_rng_state'' = Some v4"
      and "sd ''rng_tracker_states'' = None \<or> sd ''rng_tracker_states'' = Some (PDict [])"
      and "CHECKPOINT_VERSION p = PNone
           \<or> py_eq (CHECKPOINT_VERSION p)
                (case sd ''checkpoint_version'' of Some v \<Rightarrow> v | None \<Rightarrow> PInt 0)"
      and "sd ''epoch'' \<noteq> None"
      and "sd ''iteration'' \<noteq> None \<or> sd ''total_iters'' \<noteq> None"
      and "sd ''model'' = Some v" "accepts m v strict"
      and "\<not> isl (snd (load_optimizer args False sd
              (get_checkpoint_name mpu (resume_from_checkpoint args) iteration False False)
              optimizer lr_scheduler))"
  shows "load_checkpoint mpu peers p (Single m) optimizer lr_scheduler args strict =
          (out @ [Print_rank_0 (Text ('' loading checkpoint from '' @ resume_from_checkpoint args
                                    @ '' at iteration '' @ str_int iteration)),
                  Print (Text (get_checkpoint_name mpu (resume_from_checkpoint args) iteration False False))]
             @ fst (load_args args sd)
             @ [Print_rank_0 (Formatted '' checkpoint version {}''
                  [case sd ''checkpoint_version'' of Some v \<Rightarrow> v | None \<Rightarrow> PInt 0])]
             @ fst (load_optimizer args False sd
                     (get_checkpoint_name mpu (resume_from_checkpoint args) iteration False False)
                     optimizer lr_scheduler)
             @ [Random_setstate v1, Np_random_set_state v2, Torch_set_rng_state v3,
                Torch_cuda_set_rng_state v4,
                Print_rank_0 (Text (''Unable to load rng state from checkpoint ''
                  @ get_checkpoint_name mpu (resume_from_checkpoint args) iteration False False
                  @ ''. Specify --no-load-rng or --finetune to prevent attempting to load the rng state, exiting ...''))],
           Inl SystemExit)"
proof -
  have not_release: "\<not> False" by simp
  note run = load_rng_sets_four[OF not_release assms(4,5) assms(6-10)]
  from load_checkpoint_ends_in_rng_step[OF assms(1-4) assms(11-16) run]
  show ?thesis .
qed

lemma load_checkpoint_rng_bad_fails:
  assumes "os_path_isfile p (get_checkpoint_tracker_filename (resume_from_checkpoint args))"
      and "read_metadata mpu peers p (get_checkpoint_tracker_filename (resume_from_checkpoint args))
             = (out, Inr (iteration, False))"
      and "torch_load p (get_checkpoint_name mpu (resume_from_checkpoint args) iteration False False)
             = Some sd"
      and "\<not> finetune args" "\<not> no_load_rng args"
      and "sd ''random_rng_state'' = None \<or> sd ''np_rng_state'' = None
           \<or> sd ''torch_rng_state'' = None \<or> sd ''cuda_rng_state'' = None
           \<or> sd ''rng_tracker_states'' = None \<or> sd ''rng_tracker_states'' = Some (PDict [])"
  shows "isl (snd (load_checkpoint mpu peers p model optimizer lr_scheduler args strict))"
proof (rule ccontr)
  assume "\<not> isl (snd (load_checkpoint mpu peers p model optimizer lr_scheduler args strict))"
  then obtain r where
    "snd (load_checkpoint mpu peers p model optimizer lr_scheduler args strict) = Inr r"
    by (cases "snd (load_checkpoint mpu peers p model optimizer lr_scheduler args strict)") auto
  from load_checkpoint_restores_rng[OF assms(1-5) this] assms(6) show False
    by auto
qed

text \<open>
  Claim C8, amended. Let the tracker name a checkpoint that is not a release, with
  \<^verbatim>\<open>finetune\<close> and \<^verbatim>\<open>no_load_rng\<close> false. If one of the five generator keys is missing from
  the blob, or its \<^verbatim>\<open>rng_tracker_states\<close> is the empty mapping, \<^verbatim>\<open>load_checkpoint\<close> never
  returns normally, and when the steps before pass it ends by \<^verbatim>\<open>sys.exit()\<close> right after the
  one message that names \<^verbatim>\<open>--no-load-rng\<close> and \<^verbatim>\<open>--finetune\<close>; the step run on a blob with the
  empty mapping and on the blob without that key does the same calls and ends the same way.
  Whenever \<^verbatim>\<open>load_checkpoint\<close> does return, all five generators hold the states of the blob.
  But a run that exits may have restored a part: when the four keys of \<^verbatim>\<open>random\<close>,
  \<^verbatim>\<open>numpy\<close>, \<^verbatim>\<open>torch\<close> and \<^verbatim>\<open>torch.cuda\<close> are present and the tracker states are missing or
  empty, these four generators are set from the blob, in this order, before the message
  and the exit, and the tracker is not set.
\<close>

theorem rng_restore_all_or_nothing:
  assumes "os_path_isfile p (get_checkpoint_tracker_filename (resume_from_checkpoint args))"
      and "read_metadata mpu peers p (get_checkpoint_tracker_filename (resume_from_checkpoint args))
             = (out, Inr (iteration, False))"
      and "torch_load p (get_checkpoint_name mpu (resume_from_checkpoint args) iteration False False)
             = Some sd"
      and "\<not> finetune args" and "\<not> no_load_rng args"
  shows "(sd ''random_rng_state'' = None \<or> sd ''np_rng_state'' = None
           \<or> sd ''torch_rng_state'' = None \<or> sd ''cuda_rng_state'' = None
           \<or> sd ''rng_tracker_states'' = None \<or> sd ''rng_tracker_states'' = Some (PDict [])
          \<longrightarrow> isl (snd (load_checkpoint mpu peers p model optimizer lr_scheduler args strict))
              \<and> ((CHECKPOINT_VERSION p = PNone
                    \<or> py_eq (CHECKPOINT_VERSION p)
                         (case sd ''checkpoint_version'' of Some v \<Rightarrow> v | None \<Rightarrow> PInt 0))
                  \<and> sd ''epoch'' \<noteq> None
                  \<and> (sd ''iteration'' \<noteq> None \<or> sd ''total_iters'' \<noteq> None)
                  \<and> model = Single m \<and> sd ''model'' = Some v \<and> accepts m v strict
                  \<and> \<not> isl (snd (load_optimizer args False sd
                         (get_checkpoint_name mpu (resume_from_checkpoint args) iteration False False)
                         optimizer lr_scheduler))
                \<longrightarrow> snd (load_checkpoint mpu peers p model optimizer lr_scheduler args strict)
                      = Inl SystemExit
                    \<and> last (fst (load_checkpoint mpu peers p model optimizer lr_scheduler args strict))
                      = Print_rank_0 (Text (''Unable to load rng state from checkpoint ''
                          @ get_checkpoint_name mpu (resume_from_checkpoint args) iteration False False
                          @ ''. Specify --no-load-rng or --finetune to prevent attempting to load the rng state, exiting ...''))))
       \<and> (\<forall>r. snd (load_checkpoint mpu peers p model optimizer lr_scheduler args strict) = Inr r
             \<longrightarrow> sd ''random_rng_state'' = Some (random_rng_state (process_after r))
               \<and> sd ''np_rng_state'' = Some (np_rng_state (process_after r))
               \<and> sd ''torch_rng_state'' = Some (torch_rng_state (process_after r))
               \<and> sd ''cuda_rng_state'' = Some (cuda_rng_state (process_after r))
               \<and> sd ''rng_tracker_states'' = Some (rng_tracker_states (process_after r))
               \<and> rng_tracker_states (process_after r) \<noteq> PDict [])
       \<and> (sd ''rng_tracker_states'' = Some (PDict [])
          \<longrightarrow> load_rng args False sd
                (get_checkpoint_name mpu (resume_from_checkpoint args) iteration False False) q
              = load_rng args False (sd(''rng_tracker_states'' := None))
                  (get_checkpoint_name mpu (resume_from_checkpoint args) iteration False False) q)
       \<and> (sd ''random_rng_state'' = Some v1 \<and> sd ''np_rng_state'' = Some v2
           \<and> sd ''torch_rng_state'' = Some v3 \<and> sd ''cuda_rng_state'' = Some v4
           \<and> (sd ''rng_tracker_states'' = None \<or> sd ''rng_tracker_states'' = Some (PDict []))
           \<and> (CHECKPOINT_VERSION p = PNone
                \<or> py_eq (CHECKPOINT_VERSION p)
                     (case sd ''checkpoint_version'' of Some v \<Rightarrow> v | None \<Rightarrow> PInt 0))
           \<and> sd ''epoch'' \<noteq> None
           \<and> (sd ''iteration'' \<noteq> None \<or> sd ''total_iters'' \<noteq> None)
           \<and> model = Single m \<and> sd ''model'' = Some v \<and> accepts m v strict
           \<and> \<not> isl (snd (load_optimizer args False sd
                  (get_checkpoint_name mpu (resume_from_checkpoint args) iteration False False)
                  optimizer lr_scheduler))
          \<longrightarrow> load_checkpoint mpu peers p model optimizer lr_scheduler args strict =
               (out @ [Print_rank_0 (Text ('' loading checkpoint from '' @ resume_from_checkpoint args
                                         @ '' at iteration '' @ str_int iteration)),
                       Print (Text (get_checkpoint_name mpu (resume_from_checkpoint args) iteration False False))]
                  @ fst (load_args args sd)
                  @ [Print_rank_0 (Formatted '' checkpoint version {}''
                       [case sd ''checkpoint_version'' of Some v \<Rightarrow> v | None \<Rightarrow> PInt 0])]
                  @ fst (load_optimizer args False sd
                          (get_checkpoint_name mpu (resume_from_checkpoint args) iteration False False)
                          optimizer lr_scheduler)
                  @ [Random_setstate v1, Np_random_set_state v2, Torch_set_rng_state v3,
                     Torch_cuda_set_rng_state v4,
                     Print_rank_0 (Text (''Unable to load rng state from checkpoint ''
                       @ get_checkpoint_name mpu (resume_from_checkpoint args) iteration False False
                       @ ''. Specify --no-load-rng or --finetune to prevent attempting to load the rng state, exiting ...''))],
                Inl SystemExit))"
proof (intro conjI impI allI; (elim conjE)?)
  assume "sd ''random_rng_state'' = None \<or> sd ''np_rng_state'' = None
           \<or> sd ''torch_rng_state'' = None \<or> sd ''cuda_rng_state'' = None
           \<or> sd ''rng_tracker_states'' = None \<or> sd ''rng_tracker_states'' = Some (PDict [])"
  with assms show "isl (snd (load_checkpoint mpu peers p model optimizer lr_scheduler args strict))"
    by (rule load_checkpoint_rng_bad_fails)
next
  assume bad: "sd ''random_rng_state'' = None \<or> sd ''np_rng_state'' = None
           \<or> sd ''torch_rng_state'' = None \<or> sd ''cuda_rng_state'' = None
           \<or> sd ''rng_tracker_states'' = None \<or> sd ''rng_tracker_states'' = Some (PDict [])"
    and pre: "CHECKPOINT_VERSION p = PNone
                    \<or> py_eq (CHECKPOINT_VERSION p)
                         (case sd ''checkpoint_version'' of Some v \<Rightarrow> v | None \<Rightarrow> PInt 0)"
      "sd ''epoch'' \<noteq> None" "sd ''iteration'' \<noteq> None \<or> sd ''total_iters'' \<noteq> None"
    and m: "model = Single m"
    and pre': "sd ''model'' = Some v" "accepts m v strict"
      "\<not> isl (snd (load_optimizer args False sd
                         (get_checkpoint_name mpu (resume_from_checkpoint args) iteration False False)
                         optimizer lr_scheduler))"
  from load_checkpoint_rng_bad_message[OF assms bad pre pre'] m
  show "snd (load_checkpoint mpu peers p model optimizer lr_scheduler args strict) = Inl SystemExit"
    by simp
  from load_checkpoint_rng_bad_message[OF assms bad pre pre'] m
  show "last (fst (load_checkpoint mpu peers p model optimizer lr_scheduler args strict))
                      = Print_rank_0 (Text (''Unable to load rng state from checkpoint ''
                          @ get_checkpoint_name mpu (resume_from_checkpoint args) iteration False False
                          @ ''. Specify --no-load-rng or --finetune to prevent attempting to load the rng state, exiting ...''))"
    by simp
next
  fix r
  assume r: "snd (load_checkpoint mpu peers p model optimizer lr_scheduler args strict) = Inr r"
  note restored = load_checkpoint_restores_rng[OF assms r]
  from restored show "sd ''random_rng_state'' = Some (random_rng_state (process_after r))" by simp
  from restored show "sd ''np_rng_state'' = Some (np_rng_state (process_after r))" by simp
  from restored show "sd ''torch_rng_state'' = Some (torch_rng_state (process_after r))" by simp
  from restored show "sd ''cuda_rng_state'' = Some (cuda_rng_state (process_after r))" by simp
  from restored show "sd ''rng_tracker_states'' = Some (rng_tracker_states (process_after r))" by simp
  from restored show "rng_tracker_states (process_after r) \<noteq> PDict []" by simp
next
  assume "sd ''rng_tracker_states'' = Some (PDict [])"
  then show "load_rng args False sd
                (get_checkpoint_name mpu (resume_from_checkpoint args) iteration False False) q
              = load_rng args False (sd(''rng_tracker_states'' := None))
                  (get_checkpoint_name mpu (resume_from_checkpoint args) iteration False False) q"
    using assms(4,5) by (intro load_rng_empty_like_missing) simp_all
next
  assume keys: "sd ''random_rng_state'' = Some v1" "sd ''np_rng_state'' = Some v2"
      "sd ''torch_rng_state'' = Some v3" "sd ''cuda_rng_state'' = Some v4"
      "sd ''rng_tracker_states'' = None \<or> sd ''rng_tracker_states'' = Some (PDict [])"
    and pre: "CHECKPOINT_VERSION p = PNone
                    \<or> py_eq (CHECKPOINT_VERSION p)
                         (case sd ''checkpoint_version'' of Some v \<Rightarrow> v | None \<Rightarrow> PInt 0)"
      "sd ''epoch'' \<noteq> None" "sd ''iteration'' \<noteq> None \<or> sd ''total_iters'' \<noteq> None"
    and m: "model = Single m"
    and pre': "sd ''model'' = Some v" "accepts m v strict"
      "\<not> isl (snd (load_optimizer args False sd
                         (get_checkpoint_name mpu (resume_from_checkpoint args) iteration False False)
                         optimizer lr_scheduler))"
  from load_checkpoint_sets_four[OF assms keys pre pre'] m
  show "load_checkpoint mpu peers p model optimizer lr_scheduler args strict =
               (out @ [Print_rank_0 (Text ('' loading checkpoint from '' @ resume_from_checkpoint args
                                         @ '' at iteration '' @ str_int iteration)),
                       Print (Text (get_checkpoint_name mpu (resume_from_checkpoint args) iteration False False))]
                  @ fst (load_args args sd)
                  @ [Print_rank_0 (Formatted '' checkpoint version {}''
                       [case sd ''checkpoint_version'' of Some v \<Rightarrow> v | None \<Rightarrow> PInt 0])]
                  @ fst (load_optimizer args False sd
                          (get_checkpoint_name mpu (resume_from_checkpoint args) iteration False False)
                          optimizer lr_scheduler)
                  @ [Random_setstate v1, Np_random_set_state v2, Torch_set_rng_state v3,
                     Torch_cuda_set_rng_state v4,
                     Print_rank_0 (Text (''Unable to load rng state from checkpoint ''
                       @ get_checkpoint_name mpu (resume_from_checkpoint args) iteration False False
                       @ ''. Specify --no-load-rng or --finetune to prevent attempting to load the rng state, exiting ...''))],
                Inl SystemExit)"
    by simp
qed


theorem rng_restore_all_or_nothing_witness:
  "\<not> isl (snd (example_save_empty_tracker 100 example_args))
   \<and> snd (load_checkpoint example_mpu []
              (projr (snd (example_save_empty_tracker 100 example_args)))
              (Single example_model) (Some example_optimizer) None example_args True)
       = Inl SystemExit
   \<and> last (fst (load_checkpoint example_mpu []
              (projr (snd (example_save_empty_tracker 100 example_args)))
              (Single example_model) (Some example_optimizer) None example_args True))
       = Print_rank_0 (Text ''Unable to load rng state from checkpoint out/ckpt/iter_0000100/mp_rank_00/model_optim_rng.pt. Specify --no-load-rng or --finetune to prevent attempting to load the rng state, exiting ...'')"
proof -
  let ?p0 = "example_process\<lparr>rng_tracker_states := PDict []\<rparr>"
  let ?P = "projr (snd (example_save_empty_tracker 100 example_args))"
  let ?sd = "saved_state_dict ?p0 100 (state_dict example_model)
               (Some example_optimizer) None example_args (PInt 2)"
  let ?name = "''out/ckpt/iter_0000100/mp_rank_00/model_optim_rng.pt''"
  have ok: "\<not> isl (snd (example_save_empty_tracker 100 example_args))"
    by code_simp
  then have saved: "snd (save_checkpoint example_mpu ?p0 100 (Single example_model)
                      (Some example_optimizer) None example_args (PInt 2)) = Inr ?P"
    by (simp add: example_save_empty_tracker_def)
  have writer: "\<not> is_initialized example_mpu \<or> get_data_parallel_rank example_mpu = 0"
    by (simp add: example_mpu_def)
  have dir: "resume_from_checkpoint example_args = ''out/ckpt''" "output_dir example_args = ''out''"
    by (simp_all add: example_args_def)
  have tracker: "get_checkpoint_tracker_filename ''out/ckpt'' = ''out/ckpt/latest_checkpointed_iteration.txt''"
    by code_simp
  have name: "get_checkpoint_name example_mpu ''out/ckpt'' 100 False False = ?name"
    by code_simp
  have isfile: "os_path_isfile ?P ''out/ckpt/latest_checkpointed_iteration.txt''"
    by code_simp
  have rm: "read_metadata example_mpu [] ?P ''out/ckpt/latest_checkpointed_iteration.txt''
              = ([], Inr (100, False))"
    by code_simp
  have blob: "torch_load ?P ?name = Some ?sd"
    using save_checkpoint_blob[OF saved writer] by (simp add: dir name torch_load_def)
  have version: "CHECKPOINT_VERSION ?P = PNone"
    by code_simp
  have flags: "\<not> finetune example_args" "\<not> no_load_rng example_args"
      "\<not> no_save_rng example_args" "\<not> no_save_optim example_args"
    by (simp_all add: example_args_def)
  have accepted: "accepts example_model (state_dict example_model) True"
    by (simp add: example_model_def)
  have empty: "?sd ''rng_tracker_states'' = Some (PDict [])"
    using flags by (simp add: saved_state_dict_def)
  have optimizer: "\<not> isl (snd (load_optimizer example_args False ?sd ?name
                              (Some example_optimizer) None))"
    using flags by (simp add: load_optimizer_def saved_state_dict_def getitem_def
                      load_state_dict_def example_optimizer_def example_args_def)
  show ?thesis
    using rng_restore_all_or_nothing[of ?P example_args example_mpu "[]" "[]" 100 ?sd
            "Single example_model" "Some example_optimizer" None True example_model
            "state_dict example_model" ?P "PInt 11" "PInt 12" "PInt 13" "PInt 14",
            THEN conjunct1]
          ok isfile rm blob version flags accepted empty optimizer
    by (simp add: dir tracker name saved_state_dict_keys)
qed

text \<open>
  On the example, saved while the tracker held no states: the load sets four generators
  from the blob and then exits.
\<close>

theorem rng_restore_sets_four_before_exit:
  "fst (load_checkpoint example_mpu []
          (projr (snd (example_save_empty_tracker 100 example_args)))
          (Single example_model) (Some example_optimizer) None example_args True)
     = [Print_rank_0 (Text '' loading checkpoint from out/ckpt at iteration 100''),
        Print (Text ''out/ckpt/iter_0000100/mp_rank_00/model_optim_rng.pt''),
        Print_rank_0 (Formatted '' checkpoint version {}'' [PFloat 3]),
        Random_setstate (PInt 11), Np_random_set_state (PInt 12), Torch_set_rng_state (PInt 13),
        Torch_cuda_set_rng_state (PInt 14),
        Print_rank_0 (Text ''Unable to load rng state from checkpoint out/ckpt/iter_0000100/mp_rank_00/model_optim_rng.pt. Specify --no-load-rng or --finetune to prevent attempting to load the rng state, exiting ...'')]
   \<and> isl (snd (load_checkpoint example_mpu []
          (projr (snd (example_save_empty_tracker 100 example_args)))
          (Single example_model) (Some example_optimizer) None example_args True))
   \<and> projl (snd (load_checkpoint example_mpu []
          (projr (snd (example_save_empty_tracker 100 example_args)))
          (Single example_model) (Some example_optimizer) None example_args True))
       = SystemExit"
  by code_simp


section \<open>A missing tracker file, and a stored configuration that differs\<close>

text \<open>
  Claim C3, at the input where the code departs from it. When there is no tracker file,
  \<^verbatim>\<open>load_checkpoint\<close> raises nothing, hands two warning lines to the logging sink, changes
  nothing and returns the integer 0: a bare integer, not a pair of iteration and epoch as
  the return at the end of the function gives.
\<close>

theorem load_checkpoint_missing_tracker_returns_bare_zero:
  assumes "\<not> os_path_isfile p (get_checkpoint_tracker_filename (resume_from_checkpoint args))"
  shows "load_checkpoint mpu peers p model optimizer lr_scheduler args strict =
           ([Print_rank_0 (Text (''WARNING: could not find the metadata file ''
                                  @ get_checkpoint_tracker_filename (resume_from_checkpoint args)
                                  @ '' '')),
             Print_rank_0 (Text ''    will not load any checkpoints and will start from random'')],
            Inr \<lparr>returned = PInt 0, process_after = p, model_after = model,
                 optimizer_after = optimizer, lr_scheduler_after = lr_scheduler,
                 args_after = args\<rparr>)
       \<and> PInt 0 \<noteq> PTuple [iteration, epoch]"
  using assms
  by (simp add: load_checkpoint_def Let_def andthen_print_rank_0)

theorem load_checkpoint_missing_tracker_returns_bare_zero_witness:
  "\<not> os_path_isfile example_process (get_checkpoint_tracker_filename (resume_from_checkpoint example_args))
   \<and> map_sum id returned
         (snd (load_checkpoint example_mpu [] example_process (Single example_model)
                 (Some example_optimizer) None example_args True))
       = Inr (PInt 0)
   \<and> map_sum id returned
         (snd (load_checkpoint example_mpu []
                 (projr (snd (example_save 100 example_args))) (Single example_model)
                 (Some example_optimizer) None example_args True))
       = Inr (PTuple [PInt 100, PInt 2])"
proof -
  have missing: "\<not> os_path_isfile example_process
                    (get_checkpoint_tracker_filename (resume_from_checkpoint example_args))"
    by (simp add: os_path_isfile_def example_process_def)
  have resumed: "map_sum id returned
         (snd (load_checkpoint example_mpu []
                 (projr (snd (example_save 100 example_args))) (Single example_model)
                 (Some example_optimizer) None example_args True))
       = Inr (PTuple [PInt 100, PInt 2])"
    by code_simp
  show ?thesis
    using load_checkpoint_missing_tracker_returns_bare_zero[OF missing, of example_mpu "[]"
            "Single example_model" "Some example_optimizer" None True] missing resumed
    by simp
qed

text \<open>
  Claim C2, at the input where the code departs from it. Let the blob carry a stored
  configuration that differs from the current one in an attribute, so that \<^verbatim>\<open>_compare\<close> on
  that attribute would fail its assertion. \<^verbatim>\<open>check_checkpoint_args\<close> still returns normally,
  and the step of \<^verbatim>\<open>load_checkpoint\<close> that checks the arguments succeeds silently and only
  copies the consumed-sample counters: the mismatch is not detected.
\<close>

theorem configuration_mismatch_passes:
  assumes "sd ''args'' = Some (PArgs snapshot)"
      and "snd (compare' (PArgs snapshot) args arg_name None) = Inl (AssertionError msg)"
  shows "check_checkpoint_args (PArgs snapshot) args = ([], Inr ())
       \<and> load_args args sd =
           ([], Inr (args\<lparr>consumed_train_samples :=
                            Some (case consumed_train_samples snapshot of Some c \<Rightarrow> c | None \<Rightarrow> 0),
                          consumed_valid_samples :=
                            Some (case consumed_valid_samples snapshot of Some c \<Rightarrow> c | None \<Rightarrow> 0)\<rparr>))"
  using assms(1)
  by (simp add: load_args_def check_checkpoint_args_def Let_def) (simp add: ret_def)

theorem configuration_mismatch_passes_witness:
  "snd (compare' (PArgs example_args) example_args_other_shape ''num_layers'' None)
     = Inl (AssertionError
              (Formatted ''{} value from checkpoint ({}) is not equal to the input argument value ({}).''
                 [PStr ''num_layers'', PInt 12, PInt 24]))
   \<and> check_checkpoint_args (PArgs example_args) example_args_other_shape = ([], Inr ())
   \<and> map_sum id returned
         (snd (load_checkpoint example_mpu []
                 (projr (snd (example_save 100 example_args))) (Single example_model)
                 (Some example_optimizer) None example_args_other_shape True))
       = Inr (PTuple [PInt 100, PInt 2])"
proof -
  have mismatch: "snd (compare' (PArgs example_args) example_args_other_shape ''num_layers'' None)
     = Inl (AssertionError
              (Formatted ''{} value from checkpoint ({}) is not equal to the input argument value ({}).''
                 [PStr ''num_layers'', PInt 12, PInt 24]))"
    by code_simp
  have loaded: "map_sum id returned
         (snd (load_checkpoint example_mpu []
                 (projr (snd (example_save 100 example_args))) (Single example_model)
                 (Some example_optimizer) None example_args_other_shape True))
       = Inr (PTuple [PInt 100, PInt 2])"
    by code_simp
  show ?thesis
    using configuration_mismatch_passes
            [of "saved_state_dict example_process 100 (state_dict example_model)
                   (Some example_optimizer) None example_args (PInt 2)"
                example_args example_args_other_shape "''num_layers''",
             OF saved_state_dict_keys(1) mismatch]
          mismatch loaded
    by simp
qed

end
